theory Spec2Isabelle
  imports Main
begin

section \<open>Values, strings and the external collaborator\<close>

text \<open>
  The repository is a Flask gateway in front of a Supabase backend. Every function of
  \<^verbatim>\<open>utils/auth_utils.py\<close>, \<^verbatim>\<open>blueprints/auth.py\<close> and \<^verbatim>\<open>blueprints/tenant.py\<close>
  that is modelled below is a pure function of the application (whose Supabase client may
  be \<^verbatim>\<open>None\<close>), of the request, and of the answers the Supabase client gives. It returns
  the HTTP response together with the list of events it caused, in order: calls of the
  Supabase client, entries into the two helper functions of \<^verbatim>\<open>auth_utils.py\<close>, and
  lines printed.

  What the model fixes: JSON numbers are integers, the rows of a
  \<^verbatim>\<open>select\<close> have the columns that were selected, and \<^verbatim>\<open>lower\<close> acts on the letters
  A to Z. An exception is its message, \<^verbatim>\<open>str(e)\<close>, which is all the source reads of it.
\<close>

subsection \<open>JSON values and Python truthiness\<close>

datatype json =
    JNull
  | JBool bool
  | JNum int
  | JStr string
  | JList "json list"
  | JObj "(string \<times> json) list"

type_synonym dict = "(string \<times> json) list"

text \<open>\<^verbatim>\<open>bool(v)\<close> for a decoded JSON value: \<^verbatim>\<open>None\<close>, \<^verbatim>\<open>False\<close>, \<^verbatim>\<open>0\<close>, the empty
  string, the empty list and the empty dict are false.\<close>

fun truthy :: "json \<Rightarrow> bool" where
  "truthy JNull = False"
| "truthy (JBool b) = b"
| "truthy (JNum n) = (n \<noteq> 0)"
| "truthy (JStr s) = (s \<noteq> [])"
| "truthy (JList xs) = (xs \<noteq> [])"
| "truthy (JObj kvs) = (kvs \<noteq> [])"

text \<open>\<^verbatim>\<open>d.get(k)\<close> and \<^verbatim>\<open>d.get(k, default)\<close>.\<close>

definition dict_get :: "dict \<Rightarrow> string \<Rightarrow> json" where
  "dict_get d k = (case map_of d k of None \<Rightarrow> JNull | Some v \<Rightarrow> v)"

definition dict_get_default :: "dict \<Rightarrow> string \<Rightarrow> json \<Rightarrow> json" where
  "dict_get_default d k dflt = (case map_of d k of None \<Rightarrow> dflt | Some v \<Rightarrow> v)"

text \<open>Truthiness of an error slot that holds \<^verbatim>\<open>None\<close> or a string (\<^verbatim>\<open>if error:\<close>).\<close>

fun truthy_err :: "string option \<Rightarrow> bool" where
  "truthy_err None = False"
| "truthy_err (Some m) = (m \<noteq> [])"

subsection \<open>String operations of the source\<close>

text \<open>\<^verbatim>\<open>s.startswith(p)\<close>.\<close>

fun startswith :: "string \<Rightarrow> string \<Rightarrow> bool" where
  "startswith s [] = True"
| "startswith [] (p # ps) = False"
| "startswith (c # cs) (p # ps) = (c = p \<and> startswith cs ps)"

text \<open>\<^verbatim>\<open>sub in s\<close> on strings.\<close>

fun str_in :: "string \<Rightarrow> string \<Rightarrow> bool" where
  "str_in sub [] = (sub = [])"
| "str_in sub (c # cs) = (startswith (c # cs) sub \<or> str_in sub cs)"

text \<open>\<^verbatim>\<open>s.lower()\<close>, on the letters A to Z; every other character is left as it is.\<close>

definition lower_char :: "char \<Rightarrow> char" where
  "lower_char c =
     (let n = (of_char c :: nat) in if 65 \<le> n \<and> n \<le> 90 then char_of (n + 32) else c)"

definition lower :: "string \<Rightarrow> string" where
  "lower s = map lower_char s"

text \<open>\<^verbatim>\<open>s.split(sep)\<close> for a one-character separator: the fields between separators,
  empty fields included.\<close>

fun str_split :: "string \<Rightarrow> char \<Rightarrow> string list" where
  "str_split [] sep = [[]]"
| "str_split (c # cs) sep =
     (if c = sep then [] # str_split cs sep
      else (case str_split cs sep of
              [] \<Rightarrow> [[c]]
            | w # ws \<Rightarrow> (c # w) # ws))"

text \<open>\<^verbatim>\<open>sep.join(xs)\<close>.\<close>

fun join :: "string \<Rightarrow> string list \<Rightarrow> string" where
  "join sep [] = []"
| "join sep [x] = x"
| "join sep (x # y # ys) = x @ sep @ join sep (y # ys)"

subsection \<open>Exceptions, responses and events\<close>

text \<open>A call that may raise: \<open>Raises m\<close> is an exception \<^verbatim>\<open>e\<close> with \<^verbatim>\<open>str(e) == m\<close>.\<close>

datatype 'a outcome = Raises string | Returns 'a

text \<open>\<^verbatim>\<open>jsonify(body), status\<close>.\<close>

datatype response = Response (body: json) (status: nat)

datatype event =
    Call_verify_token string
  | Call_get_tenant_from_user "string option"
  | Auth_get_user string
  | Auth_sign_up json json
  | Auth_sign_in_with_password json json
  | Rpc string dict
  | Insert string dict
  | Select string string string "string option"
  | Update string dict string "string option"
  | Print string
  | Print_exc

subsection \<open>The Supabase client\<close>

record auth_user =
  u_id :: string
  u_email :: string

record auth_session =
  access_token :: string
  refresh_token :: string
  expires_at :: int

record auth_response =
  user :: "auth_user option"
  session :: "auth_session option"

text \<open>A row of \<^verbatim>\<open>tenant_users\<close> as selected with the columns \<^verbatim>\<open>tenant_id, role\<close>.\<close>

record membership_row =
  m_tenant_id :: string
  m_role :: string

text \<open>The embedded \<^verbatim>\<open>tenants(*)\<close> object of signin's select.\<close>

record tenant_info =
  t_name :: json
  t_timezone :: json
  t_industry :: json
  t_status :: json

record membership_tenant_row =
  mt_tenant_id :: string
  mt_role :: string
  mt_tenants :: tenant_info

text \<open>
  The client answers each call with data or with an exception. A \<^verbatim>\<open>response.data\<close>
  that is \<^verbatim>\<open>None\<close> is the empty list here: every use in the source tests
  \<^verbatim>\<open>not response.data or len(response.data) == 0\<close>, which treats the two alike.
\<close>

record supabase =
  auth_get_user :: "string \<Rightarrow> auth_user option outcome"
  auth_sign_up :: "json \<Rightarrow> json \<Rightarrow> auth_response outcome"
  auth_sign_in_with_password :: "json \<Rightarrow> json \<Rightarrow> auth_response outcome"
  rpc_create_tenant :: "dict \<Rightarrow> json outcome"
  insert_tenants :: "dict \<Rightarrow> dict list outcome"
  insert_tenant_users :: "dict \<Rightarrow> json list outcome"
  insert_tenant_agent_config :: "dict \<Rightarrow> json list outcome"
  select_tenant_users :: "string option \<Rightarrow> membership_row list outcome"
  select_tenant_users_tenants :: "string \<Rightarrow> membership_tenant_row list outcome"
  update_tenants :: "dict \<Rightarrow> string option \<Rightarrow> json list outcome"
  update_tenant_agent_config :: "dict \<Rightarrow> string option \<Rightarrow> json list outcome"

text \<open>\<^verbatim>\<open>current_app\<close>: \<^verbatim>\<open>init_supabase\<close> leaves \<^verbatim>\<open>supabase_client\<close> at \<^verbatim>\<open>None\<close>
  when the URL or the key is not configured.\<close>

record app =
  supabase_client :: "supabase option"

text \<open>\<^verbatim>\<open>request\<close>: the Authorization header, and what \<^verbatim>\<open>request.get_json()\<close> gives:
  the decoded body, which may be any JSON value, or an exception (a body that is not
  JSON).\<close>

record request =
  authorization :: "string option"
  get_json :: "json outcome"

definition error_body :: "string \<Rightarrow> json" where
  "error_body m = JObj [(''error'', JStr m)]"

section \<open>utils/auth\_utils.py\<close>

definition verify_token :: "app \<Rightarrow> string \<Rightarrow> (string option \<times> string option) \<times> event list" where
  "verify_token a token =
     (case supabase_client a of
        None \<Rightarrow> ((None, Some ''Supabase not configured''), [Call_verify_token token])
      | Some sb \<Rightarrow>
          (case auth_get_user sb token of
             Raises e \<Rightarrow> ((None, Some e), [Call_verify_token token, Auth_get_user token])
           | Returns None \<Rightarrow>
               ((None, Some ''Invalid token''), [Call_verify_token token, Auth_get_user token])
           | Returns (Some u) \<Rightarrow>
               ((Some (u_id u), None), [Call_verify_token token, Auth_get_user token])))"

definition get_tenant_from_user ::
  "app \<Rightarrow> string option \<Rightarrow> (string option \<times> string option \<times> string option) \<times> event list" where
  "get_tenant_from_user a user_id =
     (case supabase_client a of
        None \<Rightarrow> ((None, None, Some ''Supabase not configured''),
                 [Call_get_tenant_from_user user_id])
      | Some sb \<Rightarrow>
          (case select_tenant_users sb user_id of
             Raises e \<Rightarrow>
               ((None, None, Some e),
                [Call_get_tenant_from_user user_id,
                 Select ''tenant_users'' ''tenant_id, role'' ''user_id'' user_id])
           | Returns [] \<Rightarrow>
               ((None, None, Some ''User not associated with any tenant''),
                [Call_get_tenant_from_user user_id,
                 Select ''tenant_users'' ''tenant_id, role'' ''user_id'' user_id])
           | Returns (tenant_info # _) \<Rightarrow>
               ((Some (m_tenant_id tenant_info), Some (m_role tenant_info), None),
                [Call_get_tenant_from_user user_id,
                 Select ''tenant_users'' ''tenant_id, role'' ''user_id'' user_id])))"

text \<open>The keyword arguments the decorators add to the handler's call.\<close>

record kwargs =
  kw_user_id :: "string option"
  kw_tenant_id :: "string option"
  kw_role :: "string option"

type_synonym handler = "kwargs \<Rightarrow> response outcome \<times> event list"

text \<open>\<^verbatim>\<open>not auth_header or not auth_header.startswith('Bearer ')\<close>.\<close>

definition no_bearer :: "string option \<Rightarrow> bool" where
  "no_bearer auth_header =
     (case auth_header of
        None \<Rightarrow> True
      | Some h \<Rightarrow> h = [] \<or> \<not> startswith h ''Bearer '')"

text \<open>\<^verbatim>\<open>auth_header.split(' ')[1]\<close>; an index out of range raises \<^verbatim>\<open>IndexError\<close>.\<close>

definition bearer_token :: "string \<Rightarrow> string outcome" where
  "bearer_token auth_header =
     (case str_split auth_header CHR '' '' of
        _ # token # _ \<Rightarrow> Returns token
      | _ \<Rightarrow> Raises ''list index out of range'')"

definition require_auth :: "handler \<Rightarrow> app \<Rightarrow> request \<Rightarrow> response outcome \<times> event list" where
  "require_auth f a req =
     (if no_bearer (authorization req)
      then (Returns (Response (error_body ''Authorization token required'') 401), [])
      else
        (case bearer_token (the (authorization req)) of
           Raises e \<Rightarrow> (Raises e, [])
         | Returns token \<Rightarrow>
             (case verify_token a token of
                ((user_id, error), tr1) \<Rightarrow>
                  if truthy_err error
                  then (Returns (Response (error_body (the error)) 401), tr1)
                  else
                    (case f \<lparr>kw_user_id = user_id, kw_tenant_id = None, kw_role = None\<rparr> of
                       (r, tr2) \<Rightarrow> (r, tr1 @ tr2)))))"

definition require_tenant :: "handler \<Rightarrow> app \<Rightarrow> request \<Rightarrow> response outcome \<times> event list" where
  "require_tenant f a req =
     (if no_bearer (authorization req)
      then (Returns (Response (error_body ''Authorization token required'') 401), [])
      else
        (case bearer_token (the (authorization req)) of
           Raises e \<Rightarrow> (Raises e, [])
         | Returns token \<Rightarrow>
             (case verify_token a token of
                ((user_id, error), tr1) \<Rightarrow>
                  if truthy_err error
                  then (Returns (Response (error_body (the error)) 401), tr1)
                  else
                    (case get_tenant_from_user a user_id of
                       ((tenant_id, role, error2), tr2) \<Rightarrow>
                         if truthy_err error2
                         then (Returns (Response (error_body (the error2)) 404), tr1 @ tr2)
                         else
                           (case f \<lparr>kw_user_id = user_id, kw_tenant_id = tenant_id,
                                     kw_role = role\<rparr> of
                              (r, tr3) \<Rightarrow> (r, tr1 @ tr2 @ tr3))))))"

definition require_role ::
  "string list \<Rightarrow> handler \<Rightarrow> app \<Rightarrow> request \<Rightarrow> response outcome \<times> event list" where
  "require_role required_roles f a req =
     (if no_bearer (authorization req)
      then (Returns (Response (error_body ''Authorization token required'') 401), [])
      else
        (case bearer_token (the (authorization req)) of
           Raises e \<Rightarrow> (Raises e, [])
         | Returns token \<Rightarrow>
             (case verify_token a token of
                ((user_id, error), tr1) \<Rightarrow>
                  if truthy_err error
                  then (Returns (Response (error_body (the error)) 401), tr1)
                  else
                    (case get_tenant_from_user a user_id of
                       ((tenant_id, role, error2), tr2) \<Rightarrow>
                         if truthy_err error2
                         then (Returns (Response (error_body (the error2)) 404), tr1 @ tr2)
                         else if role \<notin> Some ` set required_roles
                         then (Returns (Response (error_body
                                 (''Insufficient permissions. Required: ''
                                   @ join '', '' required_roles)) 403), tr1 @ tr2)
                         else
                           (case f \<lparr>kw_user_id = user_id, kw_tenant_id = tenant_id,
                                     kw_role = role\<rparr> of
                              (r, tr3) \<Rightarrow> (r, tr1 @ tr2 @ tr3))))))"

section \<open>blueprints/auth.py\<close>

text \<open>The decorator \<^verbatim>\<open>handle_errors\<close>: an exception that leaves the handler is printed and
  becomes a 500 response carrying \<^verbatim>\<open>str(e)\<close>.\<close>

definition handle_errors ::
  "string \<Rightarrow> response outcome \<times> event list \<Rightarrow> response outcome \<times> event list" where
  "handle_errors name res =
     (case res of
        (Raises e, tr) \<Rightarrow>
          (Returns (Response (error_body e) 500),
           tr @ [Print (''Error in '' @ name @ '': '' @ e), Print_exc])
      | (Returns r, tr) \<Rightarrow> (Returns r, tr))"

subsection \<open>signup\<close>

text \<open>Step 1, the \<^verbatim>\<open>except\<close> branch: the provider's message is lowered and matched, first
  match first.\<close>

definition signup_auth_error :: "string \<Rightarrow> response" where
  "signup_auth_error e =
     (let error_msg = lower e in
      if str_in ''already registered'' error_msg \<or> str_in ''user already registered'' error_msg
      then Response (JObj
        [(''error'', JStr ''Email already registered''),
         (''message'', JStr ''This email address is already in use. Please sign in instead.'')])
        400
      else if str_in ''rate limit'' error_msg \<or> str_in ''rate_limit'' error_msg
      then Response (JObj
        [(''error'', JStr ''Email rate limit exceeded''),
         (''message'', JStr (''Too many signup attempts. Please wait a few minutes and try again, ''
            @ ''or disable email confirmation in Supabase Auth settings for development.'')),
         (''solution'', JStr (''Go to Supabase Dashboard > Authentication > Settings > ''
            @ ''Disable 'Enable email confirmations' for development''))])
        429
      else if str_in ''invalid'' error_msg \<and> str_in ''email'' error_msg
      then Response (JObj
        [(''error'', JStr ''Invalid email address''),
         (''message'', JStr ''Please provide a valid email address.'')])
        400
      else if str_in ''password'' error_msg \<and> (str_in ''weak'' error_msg \<or> str_in ''short'' error_msg)
      then Response (JObj
        [(''error'', JStr ''Password too weak''),
         (''message'', JStr ''Password must be at least 6 characters long.'')])
        400
      else Response (JObj
        [(''error'', JStr ''Authentication error''),
         (''message'', JStr e),
         (''details'', JStr ''If this persists, check Supabase Auth settings and rate limits.'')])
        400)"

text \<open>Step 2, the outer \<^verbatim>\<open>except\<close> branch.\<close>

definition tenant_creation_error :: "string \<Rightarrow> response" where
  "tenant_creation_error error_msg =
     (if str_in ''row-level security'' (lower error_msg) \<or> str_in ''42501'' error_msg
      then Response (JObj
        [(''error'', JStr ''Failed to create tenant''),
         (''message'', JStr (''RLS policy blocking tenant creation. ''
            @ ''Please run fix_rls_service_role.sql in Supabase SQL Editor.'')),
         (''details'', JStr error_msg),
         (''solution'', JStr (''1. Run fix_rls_service_role.sql in Supabase SQL Editor\<newline>''
            @ ''2. Verify SUPABASE_SECRET_KEY is the service_role key (not anon key)\<newline>''
            @ ''3. Service role key should start with 'eyJ...' and be much longer than anon key''))])
        500
      else Response (error_body (''Failed to create tenant: '' @ error_msg)) 500)"

text \<open>\<^verbatim>\<open>str(KeyError(k))\<close> and the message of an attribute read on \<^verbatim>\<open>None\<close>.\<close>

definition key_error :: "string \<Rightarrow> string" where
  "key_error k = [CHR 0x27] @ k @ [CHR 0x27]"

definition none_has_no_attribute :: "string \<Rightarrow> string" where
  "none_has_no_attribute attr =
     [CHR 0x27] @ ''NoneType'' @ [CHR 0x27] @ '' object has no attribute ''
       @ [CHR 0x27] @ attr @ [CHR 0x27]"

text \<open>\<^verbatim>\<open>type(v).__name__\<close> of a decoded JSON value, and \<^verbatim>\<open>str(e)\<close> of the
  \<^verbatim>\<open>AttributeError\<close> raised by a method call that the value's type does not have.\<close>

fun type_name :: "json \<Rightarrow> string" where
  "type_name JNull = ''NoneType''"
| "type_name (JBool b) = ''bool''"
| "type_name (JNum n) = ''int''"
| "type_name (JStr s) = ''str''"
| "type_name (JList xs) = ''list''"
| "type_name (JObj kvs) = ''dict''"

definition has_no_attribute :: "json \<Rightarrow> string \<Rightarrow> string" where
  "has_no_attribute v attr =
     [CHR 0x27] @ type_name v @ [CHR 0x27] @ '' object has no attribute ''
       @ [CHR 0x27] @ attr @ [CHR 0x27]"

text \<open>Step 2: the RPC first; when it raises or returns no data, the direct insert. \<open>Inl\<close>
  is an early \<^verbatim>\<open>return\<close> of the handler, \<open>Inr\<close> the new \<^verbatim>\<open>tenant_id\<close>.\<close>

definition create_tenant :: "supabase \<Rightarrow> dict \<Rightarrow> (response + json) \<times> event list" where
  "create_tenant sb data =
     (let rpc_args =
            [(''p_name'', dict_get data ''company_name''),
             (''p_timezone'', dict_get_default data ''timezone'' (JStr ''America/Toronto'')),
             (''p_industry'', dict_get data ''industry''),
             (''p_default_email_recipients'',
                dict_get_default data ''default_email_recipients'' (JList [dict_get data ''email'']))];
          tenant_data =
            [(''name'', dict_get data ''company_name''),
             (''timezone'', dict_get_default data ''timezone'' (JStr ''America/Toronto'')),
             (''industry'', dict_get data ''industry''),
             (''status'', JStr ''active''),
             (''default_email_recipients'',
                dict_get_default data ''default_email_recipients'' (JList [dict_get data ''email'']))];
          tr = [Rpc ''create_tenant'' rpc_args, Insert ''tenants'' tenant_data];
          direct_insert =
            (case insert_tenants sb tenant_data of
               Raises e \<Rightarrow> (Inl (tenant_creation_error e), tr)
             | Returns [] \<Rightarrow>
                 (Inl (Response (JObj
                    [(''error'', JStr ''Failed to create tenant''),
                     (''details'', JStr (''Service role key may not be configured correctly. ''
                        @ ''Ensure SUPABASE_SECRET_KEY is the service_role key, not the anon key.''))])
                    500), tr)
             | Returns (row # _) \<Rightarrow>
                 (case map_of row ''id'' of
                    None \<Rightarrow> (Inl (tenant_creation_error (key_error ''id'')), tr)
                  | Some tenant_id \<Rightarrow> (Inr tenant_id, tr)))
      in case rpc_create_tenant sb rpc_args of
           Raises rpc_error \<Rightarrow> direct_insert
         | Returns d \<Rightarrow>
             if truthy d then (Inr d, [Rpc ''create_tenant'' rpc_args]) else direct_insert)"

text \<open>Step 3: \<open>Some r\<close> is an early \<^verbatim>\<open>return\<close>.\<close>

definition create_tenant_user ::
  "supabase \<Rightarrow> json \<Rightarrow> string \<Rightarrow> response option \<times> event list" where
  "create_tenant_user sb tenant_id user_id =
     (let tenant_user_data =
            [(''tenant_id'', tenant_id), (''user_id'', JStr user_id), (''role'', JStr ''owner'')];
          tr = [Insert ''tenant_users'' tenant_user_data]
      in case insert_tenant_users sb tenant_user_data of
           Raises e \<Rightarrow>
             (Some (Response (error_body (''Failed to create tenant user: '' @ e)) 500), tr)
         | Returns [] \<Rightarrow>
             (Some (Response (error_body ''Failed to link user to tenant'') 500), tr)
         | Returns (_ # _) \<Rightarrow> (None, tr))"

text \<open>Step 4: the insert's result is not read; an exception is printed and dropped.\<close>

definition agent_config_data :: "json \<Rightarrow> dict" where
  "agent_config_data tenant_id =
     [(''tenant_id'', tenant_id),
      (''greeting'', JStr ''Thank you for calling. How may I assist you today?''),
      (''tone'', JStr ''professional''),
      (''business_hours'', JObj []),
      (''escalation_rules'', JObj []),
      (''allowed_actions'', JList []),
      (''store_transcripts'', JBool True),
      (''store_recordings'', JBool True),
      (''retention_days'', JNum 90)]"

definition create_agent_config :: "supabase \<Rightarrow> json \<Rightarrow> event list" where
  "create_agent_config sb tenant_id =
     (case insert_tenant_agent_config sb (agent_config_data tenant_id) of
        Raises e \<Rightarrow>
          [Insert ''tenant_agent_config'' (agent_config_data tenant_id),
           Print (''Warning: Failed to create default agent config: '' @ e)]
      | Returns _ \<Rightarrow> [Insert ''tenant_agent_config'' (agent_config_data tenant_id)])"

definition signup_success :: "dict \<Rightarrow> auth_user \<Rightarrow> auth_session option \<Rightarrow> json \<Rightarrow> response" where
  "signup_success data u sess tenant_id =
     Response (JObj
       [(''message'', JStr ''Signup successful''),
        (''user'', JObj [(''id'', JStr (u_id u)), (''email'', dict_get data ''email'')]),
        (''tenant'', JObj
           [(''id'', tenant_id),
            (''name'', dict_get data ''company_name''),
            (''role'', JStr ''owner'')]),
        (''session'', JObj
           [(''access_token'',
               (case sess of None \<Rightarrow> JNull | Some s \<Rightarrow> JStr (access_token s))),
            (''refresh_token'',
               (case sess of None \<Rightarrow> JNull | Some s \<Rightarrow> JStr (refresh_token s)))])])
       201"

text \<open>The handler from its first statement on, for a body \<^verbatim>\<open>data\<close> that is a dict.\<close>

definition signup_dict :: "app \<Rightarrow> dict \<Rightarrow> response outcome \<times> event list" where
  "signup_dict a data =
     (if \<not> truthy (dict_get data ''email'') \<or> \<not> truthy (dict_get data ''password'')
      then (Returns (Response (error_body ''Email and password are required'') 400), [])
      else if \<not> truthy (dict_get data ''company_name'')
      then (Returns (Response (error_body ''Company name is required'') 400), [])
      else
        (case supabase_client a of
           None \<Rightarrow> (Returns (Response (error_body ''Supabase not configured'') 500), [])
         | Some sb \<Rightarrow>
             (let tr1 = [Auth_sign_up (dict_get data ''email'') (dict_get data ''password'')] in
              case auth_sign_up sb (dict_get data ''email'') (dict_get data ''password'') of
                Raises e \<Rightarrow> (Returns (signup_auth_error e), tr1)
              | Returns auth_response \<Rightarrow>
                  (case user auth_response of
                     None \<Rightarrow> (Returns (Response (error_body ''Failed to create user'') 400), tr1)
                   | Some u \<Rightarrow>
                       (case create_tenant sb data of
                          (Inl r, tr2) \<Rightarrow> (Returns r, tr1 @ tr2)
                        | (Inr tenant_id, tr2) \<Rightarrow>
                            (case create_tenant_user sb tenant_id (u_id u) of
                               (Some r, tr3) \<Rightarrow> (Returns r, tr1 @ tr2 @ tr3)
                             | (None, tr3) \<Rightarrow>
                                 (Returns (signup_success data u (session auth_response) tenant_id),
                                  tr1 @ tr2 @ tr3 @ create_agent_config sb tenant_id)))))))"

text \<open>\<^verbatim>\<open>data = request.get_json()\<close>, then \<^verbatim>\<open>data.get('email')\<close>: on a body that is not
  a dict the call of \<^verbatim>\<open>get\<close> raises, and so does \<^verbatim>\<open>get_json\<close> on a body that is not
  JSON; \<^verbatim>\<open>handle_errors\<close> is around both.\<close>

definition signup :: "app \<Rightarrow> request \<Rightarrow> response outcome \<times> event list" where
  "signup a req = handle_errors ''signup''
     (case get_json req of
        Raises e \<Rightarrow> (Raises e, [])
      | Returns (JObj data) \<Rightarrow> signup_dict a data
      | Returns v \<Rightarrow> (Raises (has_no_attribute v ''get''), []))"

subsection \<open>signin\<close>

definition signin_auth_error :: "string \<Rightarrow> response" where
  "signin_auth_error error_msg =
     (if str_in ''invalid'' (lower error_msg) \<or> str_in ''credentials'' (lower error_msg)
      then Response (error_body ''Invalid email or password'') 401
      else Response (error_body (''Authentication error: '' @ error_msg)) 401)"

definition signin_success :: "auth_user \<Rightarrow> auth_session \<Rightarrow> membership_tenant_row \<Rightarrow> response" where
  "signin_success u s tenant_info =
     Response (JObj
       [(''message'', JStr ''Sign in successful''),
        (''user'', JObj [(''id'', JStr (u_id u)), (''email'', JStr (u_email u))]),
        (''tenant'', JObj
           [(''id'', JStr (mt_tenant_id tenant_info)),
            (''name'', t_name (mt_tenants tenant_info)),
            (''role'', JStr (mt_role tenant_info)),
            (''timezone'', t_timezone (mt_tenants tenant_info)),
            (''industry'', t_industry (mt_tenants tenant_info)),
            (''status'', t_status (mt_tenants tenant_info))]),
        (''session'', JObj
           [(''access_token'', JStr (access_token s)),
            (''refresh_token'', JStr (refresh_token s)),
            (''expires_at'', JNum (expires_at s))])])
       200"

definition signin_dict :: "app \<Rightarrow> dict \<Rightarrow> response outcome \<times> event list" where
  "signin_dict a data =
     (if \<not> truthy (dict_get data ''email'') \<or> \<not> truthy (dict_get data ''password'')
      then (Returns (Response (error_body ''Email and password are required'') 400), [])
      else
        (case supabase_client a of
           None \<Rightarrow> (Returns (Response (error_body ''Supabase not configured'') 500), [])
         | Some sb \<Rightarrow>
             (let tr1 = [Auth_sign_in_with_password (dict_get data ''email'')
                           (dict_get data ''password'')] in
              case auth_sign_in_with_password sb (dict_get data ''email'')
                     (dict_get data ''password'') of
                Raises e \<Rightarrow> (Returns (signin_auth_error e), tr1)
              | Returns auth_response \<Rightarrow>
                  (case user auth_response of
                     None \<Rightarrow> (Returns (Response (error_body ''Invalid credentials'') 401), tr1)
                   | Some u \<Rightarrow>
                       (let tr2 = tr1 @ [Select ''tenant_users'' ''tenant_id, role, tenants(*)''
                                          ''user_id'' (Some (u_id u))] in
                        case select_tenant_users_tenants sb (u_id u) of
                          Raises e \<Rightarrow>
                            (Returns (Response (error_body
                               (''Failed to fetch tenant info: '' @ e)) 500), tr2)
                        | Returns [] \<Rightarrow>
                            (Returns (Response (error_body
                               ''User not associated with any tenant. Please contact support.'')
                               404), tr2)
                        | Returns (tenant_info # _) \<Rightarrow>
                            (case session auth_response of
                               None \<Rightarrow>
                                 (Returns (Response (error_body
                                    (''Failed to fetch tenant info: ''
                                      @ none_has_no_attribute ''access_token'')) 500),
                                  tr2)
                             | Some s \<Rightarrow> (Returns (signin_success u s tenant_info), tr2)))))))"

definition signin :: "app \<Rightarrow> request \<Rightarrow> response outcome \<times> event list" where
  "signin a req = handle_errors ''signin''
     (case get_json req of
        Raises e \<Rightarrow> (Raises e, [])
      | Returns (JObj data) \<Rightarrow> signin_dict a data
      | Returns v \<Rightarrow> (Raises (has_no_attribute v ''get''), []))"

section \<open>blueprints/tenant.py\<close>







section \<open>Test doubles\<close>

text \<open>Concrete Supabase clients, a handler and requests, on which the theorems below are
  evaluated: a client whose every call raises the same message, and a client whose every
  call succeeds.\<close>

definition failing_supabase :: "string \<Rightarrow> supabase" where
  "failing_supabase m =
     \<lparr>auth_get_user = (\<lambda>_. Raises m),
      auth_sign_up = (\<lambda>_ _. Raises m),
      auth_sign_in_with_password = (\<lambda>_ _. Raises m),
      rpc_create_tenant = (\<lambda>_. Raises m),
      insert_tenants = (\<lambda>_. Raises m),
      insert_tenant_users = (\<lambda>_. Raises m),
      insert_tenant_agent_config = (\<lambda>_. Raises m),
      select_tenant_users = (\<lambda>_. Raises m),
      select_tenant_users_tenants = (\<lambda>_. Raises m),
      update_tenants = (\<lambda>_ _. Raises m),
      update_tenant_agent_config = (\<lambda>_ _. Raises m)\<rparr>"

definition demo_user :: auth_user where
  "demo_user = \<lparr>u_id = ''u-1'', u_email = ''owner@acme.test''\<rparr>"

definition demo_session :: auth_session where
  "demo_session = \<lparr>access_token = ''at-1'', refresh_token = ''rt-1'', expires_at = 1700000000\<rparr>"

definition demo_supabase :: supabase where
  "demo_supabase =
     \<lparr>auth_get_user = (\<lambda>_. Returns (Some demo_user)),
      auth_sign_up = (\<lambda>_ _. Returns \<lparr>user = Some demo_user, session = Some demo_session\<rparr>),
      auth_sign_in_with_password =
        (\<lambda>_ _. Returns \<lparr>user = Some demo_user, session = Some demo_session\<rparr>),
      rpc_create_tenant = (\<lambda>_. Returns (JStr ''t-1'')),
      insert_tenants = (\<lambda>d. Returns [(''id'', JStr ''t-1'') # d]),
      insert_tenant_users = (\<lambda>d. Returns [JObj d]),
      insert_tenant_agent_config = (\<lambda>d. Returns [JObj d]),
      select_tenant_users =
        (\<lambda>_. Returns [\<lparr>m_tenant_id = ''t-1'', m_role = ''viewer''\<rparr>,
                      \<lparr>m_tenant_id = ''t-2'', m_role = ''owner''\<rparr>]),
      select_tenant_users_tenants =
        (\<lambda>_. Returns
           [\<lparr>mt_tenant_id = ''t-1'', mt_role = ''viewer'',
             mt_tenants = \<lparr>t_name = JStr ''Acme'', t_timezone = JStr ''America/Toronto'',
                           t_industry = JNull, t_status = JStr ''active''\<rparr>\<rparr>,
            \<lparr>mt_tenant_id = ''t-2'', mt_role = ''owner'',
             mt_tenants = \<lparr>t_name = JStr ''Other'', t_timezone = JStr ''UTC'',
                           t_industry = JNull, t_status = JStr ''active''\<rparr>\<rparr>]),
      update_tenants = (\<lambda>d _. Returns [JObj d]),
      update_tenant_agent_config = (\<lambda>d _. Returns [JObj d])\<rparr>"

definition ok_handler :: handler where
  "ok_handler kw =
     (Returns (Response (JObj
        [(''user_id'', (case kw_user_id kw of None \<Rightarrow> JNull | Some s \<Rightarrow> JStr s)),
         (''tenant_id'', (case kw_tenant_id kw of None \<Rightarrow> JNull | Some s \<Rightarrow> JStr s)),
         (''role'', (case kw_role kw of None \<Rightarrow> JNull | Some s \<Rightarrow> JStr s))]) 200), [])"

definition bearer_request :: "string \<Rightarrow> dict \<Rightarrow> request" where
  "bearer_request token data = \<lparr>authorization = Some (''Bearer '' @ token), get_json = Returns (JObj data)\<rparr>"

text \<open>A client whose authentication calls raise an exception with an empty message
  (\<^verbatim>\<open>str(e) == ''\<close>), and whose directory holds no membership.\<close>

definition silent_supabase :: supabase where
  "silent_supabase = (failing_supabase '''')\<lparr>select_tenant_users := (\<lambda>_. Returns [])\<rparr>"

text \<open>\<^verbatim>\<open>j[k]\<close> on a response body, to name its fields in the theorems.\<close>

definition json_get :: "json \<Rightarrow> string \<Rightarrow> json" where
  "json_get j k = (case j of JObj kvs \<Rightarrow> dict_get kvs k | _ \<Rightarrow> JNull)"

text \<open>The members of the request's body when it is a JSON object, and none otherwise: to
  name the fields of the request in the theorems.\<close>

definition json_dict :: "request \<Rightarrow> dict" where
  "json_dict req = (case get_json req of Returns (JObj data) \<Rightarrow> data | _ \<Rightarrow> [])"

text \<open>A complete signup request.\<close>

definition signup_request :: request where
  "signup_request =
     \<lparr>authorization = None,
      get_json = Returns (JObj [(''email'', JStr ''owner@acme.test''), (''password'', JStr ''pw''),
                  (''company_name'', JStr ''Acme'')])\<rparr>"


section \<open>Strings and traces\<close>

lemma dict_get_Nil: "dict_get [] k = JNull"
  by (simp add: dict_get_def)


lemma truthy_field_object:
  "truthy (dict_get (json_dict req) k) \<Longrightarrow> get_json req = Returns (JObj (json_dict req))"
  by (auto simp: json_dict_def dict_get_Nil split: outcome.splits json.splits)

lemma signup_object:
  "get_json req = Returns (JObj (json_dict req)) \<Longrightarrow>
   signup a req = handle_errors ''signup'' (signup_dict a (json_dict req))"
  by (simp add: signup_def)

lemma signin_object:
  "get_json req = Returns (JObj (json_dict req)) \<Longrightarrow>
   signin a req = handle_errors ''signin'' (signin_dict a (json_dict req))"
  by (simp add: signin_def)

lemma signup_not_object:
  assumes "\<forall>data. get_json req \<noteq> Returns (JObj data)"
  shows "\<exists>e. signup a req
           = (Returns (Response (error_body e) 500),
              [Print (''Error in signup: '' @ e), Print_exc])"
  using assms
  by (auto simp: signup_def handle_errors_def split: outcome.splits json.splits)

lemma startswith_iff: "startswith s p \<longleftrightarrow> (\<exists>r. s = p @ r)"
  by (induction s p rule: startswith.induct) auto

lemma str_split_nonempty: "str_split s sep \<noteq> []"
  by (induction s) (auto split: list.splits)

lemma str_split_append_sep:
  "sep \<notin> set w \<Longrightarrow> str_split (w @ sep # r) sep = w # str_split r sep"
  by (induction w) (auto split: list.splits)

lemma bearer_token_ok:
  assumes "startswith h ''Bearer ''"
  shows "\<exists>token. bearer_token h = Returns token \<and> token = hd (str_split (drop 7 h) CHR '' '')"
proof -
  from assms obtain r where h: "h = ''Bearer '' @ r" by (auto simp: startswith_iff)
  have "str_split h CHR '' '' = ''Bearer'' # str_split r CHR '' ''"
    using str_split_append_sep [of "CHR '' ''" "''Bearer''" r] by (simp add: h)
  moreover obtain t ts where "str_split r CHR '' '' = t # ts"
    using str_split_nonempty [of r "CHR '' ''"] by (cases "str_split r CHR '' ''") auto
  ultimately show ?thesis by (simp add: bearer_token_def h)
qed

lemma no_bearer_iff:
  "no_bearer h \<longleftrightarrow> (h = None \<or> (\<exists>s. h = Some s \<and> \<not> (\<exists>rest. s = ''Bearer '' @ rest)))"
  by (cases h) (auto simp: no_bearer_def startswith_iff)

lemma bearer_token_append:
  "bearer_token (''Bearer '' @ rest) = Returns (hd (str_split rest CHR '' ''))"
proof -
  have "startswith (''Bearer '' @ rest) ''Bearer ''" by (simp add: startswith_iff)
  from bearer_token_ok [OF this] show ?thesis by simp
qed

lemma verify_token_trace:
  "\<exists>tr. snd (verify_token a token) = Call_verify_token token # tr
        \<and> (\<forall>t. Call_verify_token t \<notin> set tr)"
  by (auto simp: verify_token_def split: option.splits outcome.splits)

lemma get_tenant_from_user_trace:
  "Call_verify_token t \<notin> set (snd (get_tenant_from_user a uid))"
  by (auto simp: get_tenant_from_user_def split: option.splits outcome.splits list.splits)

lemma require_auth_rejects:
  "no_bearer (authorization req) \<Longrightarrow>
   require_auth f a req = (Returns (Response (error_body ''Authorization token required'') 401), [])"
  by (simp add: require_auth_def)

lemma require_tenant_rejects:
  "no_bearer (authorization req) \<Longrightarrow>
   require_tenant f a req = (Returns (Response (error_body ''Authorization token required'') 401), [])"
  by (simp add: require_tenant_def)

lemma require_role_rejects:
  "no_bearer (authorization req) \<Longrightarrow>
   require_role roles f a req = (Returns (Response (error_body ''Authorization token required'') 401), [])"
  by (simp add: require_role_def)

lemma handler_event:
  "f kw = (r, tr) \<Longrightarrow> e \<in> set tr \<Longrightarrow> \<exists>kw. e \<in> set (snd (f kw))"
  by (metis snd_conv)

lemma get_tenant_from_user_trace':
  "get_tenant_from_user a uid = (x, tr) \<Longrightarrow> Call_verify_token t \<notin> set tr"
  by (metis get_tenant_from_user_trace snd_conv)

lemma require_auth_trace:
  assumes "\<not> no_bearer (authorization req)"
      and "bearer_token (the (authorization req)) = Returns token"
  shows "\<exists>tr. snd (require_auth f a req) = Call_verify_token token # tr
      \<and> (\<forall>t. Call_verify_token t \<in> set tr \<longrightarrow> (\<exists>kw. Call_verify_token t \<in> set (snd (f kw))))"
proof -
  obtain tr where tr: "snd (verify_token a token) = Call_verify_token token # tr"
    "\<forall>t. Call_verify_token t \<notin> set tr"
    using verify_token_trace by blast
  show ?thesis
    using assms tr
    by (cases "verify_token a token")
       (auto simp: require_auth_def split: prod.splits dest: handler_event)
qed

lemma require_tenant_trace:
  assumes "\<not> no_bearer (authorization req)"
      and "bearer_token (the (authorization req)) = Returns token"
  shows "\<exists>tr. snd (require_tenant f a req) = Call_verify_token token # tr
      \<and> (\<forall>t. Call_verify_token t \<in> set tr \<longrightarrow> (\<exists>kw. Call_verify_token t \<in> set (snd (f kw))))"
proof -
  obtain tr where tr: "snd (verify_token a token) = Call_verify_token token # tr"
    "\<forall>t. Call_verify_token t \<notin> set tr"
    using verify_token_trace by blast
  show ?thesis
    using assms tr
    by (cases "verify_token a token")
       (auto simp: require_tenant_def split: prod.splits dest: handler_event get_tenant_from_user_trace')
qed

lemma require_role_trace:
  assumes "\<not> no_bearer (authorization req)"
      and "bearer_token (the (authorization req)) = Returns token"
  shows "\<exists>tr. snd (require_role roles f a req) = Call_verify_token token # tr
      \<and> (\<forall>t. Call_verify_token t \<in> set tr \<longrightarrow> (\<exists>kw. Call_verify_token t \<in> set (snd (f kw))))"
proof -
  obtain tr where tr: "snd (verify_token a token) = Call_verify_token token # tr"
    "\<forall>t. Call_verify_token t \<notin> set tr"
    using verify_token_trace by blast
  show ?thesis
    using assms tr
    by (cases "verify_token a token")
       (auto simp: require_role_def split: prod.splits dest: handler_event get_tenant_from_user_trace')
qed

section \<open>Membership resolution\<close>

text \<open>
  Claim C7. For every user identity, \<^verbatim>\<open>get_tenant_from_user\<close> fails with the error
  \<^verbatim>\<open>User not associated with any tenant\<close> when the directory returns no row, and when
  it returns one or more rows the result is the \<^verbatim>\<open>tenant_id\<close> and \<^verbatim>\<open>role\<close> of the
  first row, whatever the later rows are. \<^verbatim>\<open>signin\<close> does the same with its own query:
  no row gives HTTP 404, otherwise the response is built from the first row alone.
\<close>

theorem membership_first_row:
  assumes "supabase_client a = Some sb"
  shows "(select_tenant_users sb uid = Returns [] \<longrightarrow>
           fst (get_tenant_from_user a uid)
             = (None, None, Some ''User not associated with any tenant''))
       \<and> (\<forall>r rs. select_tenant_users sb uid = Returns (r # rs) \<longrightarrow>
           fst (get_tenant_from_user a uid) = (Some (m_tenant_id r), Some (m_role r), None))
       \<and> (\<forall>ar u s. truthy (dict_get (json_dict req) ''email'')
             \<and> truthy (dict_get (json_dict req) ''password'')
             \<and> auth_sign_in_with_password sb (dict_get (json_dict req) ''email'')
                  (dict_get (json_dict req) ''password'') = Returns ar
             \<and> user ar = Some u \<and> session ar = Some s \<longrightarrow>
           (select_tenant_users_tenants sb (u_id u) = Returns [] \<longrightarrow>
              fst (signin a req) = Returns (Response (error_body
                ''User not associated with any tenant. Please contact support.'') 404))
         \<and> (\<forall>r rs. select_tenant_users_tenants sb (u_id u) = Returns (r # rs) \<longrightarrow>
              fst (signin a req) = Returns (signin_success u s r)))"
  using assms
  by (auto simp: get_tenant_from_user_def signin_object truthy_field_object signin_dict_def
        handle_errors_def Let_def)

text \<open>The demo directory returns two rows; the first one is selected.\<close>

theorem membership_first_row_witness:
  "fst (get_tenant_from_user \<lparr>supabase_client = Some demo_supabase\<rparr> (Some ''u-1''))
     = (Some ''t-1'', Some ''viewer'', None)
   \<and> fst (get_tenant_from_user
        \<lparr>supabase_client = Some (demo_supabase\<lparr>select_tenant_users := (\<lambda>_. Returns [])\<rparr>)\<rparr>
        (Some ''u-1''))
     = (None, None, Some ''User not associated with any tenant'')
   \<and> fst (signin \<lparr>supabase_client = Some demo_supabase\<rparr>
        \<lparr>authorization = None,
         get_json = Returns (JObj [(''email'', JStr ''owner@acme.test''), (''password'', JStr ''pw'')])\<rparr>)
     = Returns (signin_success demo_user demo_session
         \<lparr>mt_tenant_id = ''t-1'', mt_role = ''viewer'',
          mt_tenants = \<lparr>t_name = JStr ''Acme'', t_timezone = JStr ''America/Toronto'',
                        t_industry = JNull, t_status = JStr ''active''\<rparr>\<rparr>)"
  using membership_first_row [of "\<lparr>supabase_client = Some demo_supabase\<rparr>" demo_supabase
          "Some ''u-1''"
          "\<lparr>authorization = None,
            get_json = Returns (JObj [(''email'', JStr ''owner@acme.test''), (''password'', JStr ''pw'')])\<rparr>"]
        membership_first_row [of
          "\<lparr>supabase_client = Some (demo_supabase\<lparr>select_tenant_users := (\<lambda>_. Returns [])\<rparr>)\<rparr>"
          "demo_supabase\<lparr>select_tenant_users := (\<lambda>_. Returns [])\<rparr>" "Some ''u-1''"]
  by (simp add: demo_supabase_def dict_get_def demo_user_def json_dict_def)

section \<open>The guards\<close>

lemma hd_str_split: "hd (str_split s sep) = takeWhile (\<lambda>c. c \<noteq> sep) s"
  by (induction s) (auto simp: str_split_nonempty split: list.splits)

lemma bearer_token_takeWhile:
  assumes "h = ''Bearer '' @ rest"
  shows "bearer_token h = Returns (takeWhile (\<lambda>c. c \<noteq> CHR '' '') rest)"
proof -
  have "startswith h ''Bearer ''" using assms by (simp add: startswith_iff)
  from bearer_token_ok [OF this] show ?thesis using assms by (simp add: hd_str_split)
qed

lemma verify_token_error_cases:
  assumes "snd (fst (verify_token a token)) = Some m"
  shows "(supabase_client a = None \<and> m = ''Supabase not configured'')
       \<or> (\<exists>sb. supabase_client a = Some sb
             \<and> (auth_get_user sb token = Returns None \<and> m = ''Invalid token''
                 \<or> auth_get_user sb token = Raises m))"
  using assms by (auto simp: verify_token_def split: option.splits outcome.splits)

lemma require_role_outcomes:
  assumes "authorization req = Some (''Bearer '' @ rest)"
      and "fst (verify_token a (takeWhile (\<lambda>c. c \<noteq> CHR '' '') rest)) = (uid, None)"
  shows "snd (snd (fst (get_tenant_from_user a uid))) = Some m \<Longrightarrow> m \<noteq> [] \<Longrightarrow>
           fst (require_role roles f a req) = Returns (Response (error_body m) 404)"
    and "fst (get_tenant_from_user a uid) = (Some t, Some r, None) \<Longrightarrow> r \<notin> set roles \<Longrightarrow>
           fst (require_role roles f a req) = Returns (Response (error_body
             (''Insufficient permissions. Required: '' @ join '', '' roles)) 403)"
    and "fst (get_tenant_from_user a uid) = (Some t, Some r, None) \<Longrightarrow> r \<in> set roles \<Longrightarrow>
           fst (require_role roles f a req)
             = fst (f \<lparr>kw_user_id = uid, kw_tenant_id = Some t, kw_role = Some r\<rparr>)"
proof -
  have nb: "\<not> no_bearer (authorization req)"
    using assms(1) by (auto simp only: no_bearer_iff)
  have tok: "bearer_token (the (authorization req))
               = Returns (takeWhile (\<lambda>c. c \<noteq> CHR '' '') rest)"
    using bearer_token_takeWhile [of "''Bearer '' @ rest" rest] assms(1) by simp
  show "snd (snd (fst (get_tenant_from_user a uid))) = Some m \<Longrightarrow> m \<noteq> [] \<Longrightarrow>
           fst (require_role roles f a req) = Returns (Response (error_body m) 404)"
    using nb tok assms(2)
    by (cases "verify_token a (takeWhile (\<lambda>c. c \<noteq> CHR '' '') rest)";
        cases "get_tenant_from_user a uid")
       (auto simp: require_role_def split: prod.splits)
  show "fst (get_tenant_from_user a uid) = (Some t, Some r, None) \<Longrightarrow> r \<notin> set roles \<Longrightarrow>
           fst (require_role roles f a req) = Returns (Response (error_body
             (''Insufficient permissions. Required: '' @ join '', '' roles)) 403)"
    using nb tok assms(2)
    by (cases "verify_token a (takeWhile (\<lambda>c. c \<noteq> CHR '' '') rest)";
        cases "get_tenant_from_user a uid")
       (auto simp: require_role_def split: prod.splits)
  show "fst (get_tenant_from_user a uid) = (Some t, Some r, None) \<Longrightarrow> r \<in> set roles \<Longrightarrow>
           fst (require_role roles f a req)
             = fst (f \<lparr>kw_user_id = uid, kw_tenant_id = Some t, kw_role = Some r\<rparr>)"
    using nb tok assms(2)
    by (cases "verify_token a (takeWhile (\<lambda>c. c \<noteq> CHR '' '') rest)";
        cases "get_tenant_from_user a uid")
       (auto simp: require_role_def split: prod.splits)
qed

lemma viewer_is_refused:
  "require_role [''owner'', ''admin''] ok_handler \<lparr>supabase_client = Some demo_supabase\<rparr>
     (bearer_request ''abc'' [])
   = (Returns (Response (error_body ''Insufficient permissions. Required: owner, admin'') 403),
      [Call_verify_token ''abc'', Auth_get_user ''abc'',
       Call_get_tenant_from_user (Some ''u-1''),
       Select ''tenant_users'' ''tenant_id, role'' ''user_id'' (Some ''u-1'')])"
  by (simp add: require_role_def no_bearer_def bearer_token_def bearer_request_def
        verify_token_def get_tenant_from_user_def demo_supabase_def demo_user_def)

subsection \<open>The Authorization header\<close>

text \<open>
  Claim C9, as amended. In each of the three guards, a request with no Authorization header,
  or with one that does not start with \<^verbatim>\<open>Bearer \<close> (the empty header included), is
  answered with HTTP 401 \<^verbatim>\<open>Authorization token required\<close> and causes no event at all:
  \<^verbatim>\<open>verify_token\<close> is not entered. For a header \<^verbatim>\<open>Bearer \<close> followed by \<open>rest\<close>, the
  guard's first event is the entry into \<^verbatim>\<open>verify_token\<close> with the text of \<open>rest\<close> up to
  its first space, which may be empty; any other entry into \<^verbatim>\<open>verify_token\<close> in the trace
  is the handler's own.
\<close>

theorem bearer_header_gate:
  "(authorization req = None
      \<or> (\<exists>h. authorization req = Some h \<and> \<not> (\<exists>rest. h = ''Bearer '' @ rest)) \<longrightarrow>
      require_auth f a req
        = (Returns (Response (error_body ''Authorization token required'') 401), [])
    \<and> require_tenant f a req
        = (Returns (Response (error_body ''Authorization token required'') 401), [])
    \<and> require_role roles f a req
        = (Returns (Response (error_body ''Authorization token required'') 401), []))
   \<and> (\<forall>rest. authorization req = Some (''Bearer '' @ rest) \<longrightarrow>
        (\<forall>g \<in> {require_auth f a req, require_tenant f a req, require_role roles f a req}.
           \<exists>tr. snd g = Call_verify_token (takeWhile (\<lambda>c. c \<noteq> CHR '' '') rest) # tr
              \<and> (\<forall>t. Call_verify_token t \<in> set tr \<longrightarrow>
                    (\<exists>kw. Call_verify_token t \<in> set (snd (f kw))))))"
proof (intro conjI impI allI)
  assume "authorization req = None
      \<or> (\<exists>h. authorization req = Some h \<and> \<not> (\<exists>rest. h = ''Bearer '' @ rest))"
  then have nb: "no_bearer (authorization req)" by (simp only: no_bearer_iff)
  show "require_auth f a req
        = (Returns (Response (error_body ''Authorization token required'') 401), [])"
    using nb by (rule require_auth_rejects)
  show "require_tenant f a req
        = (Returns (Response (error_body ''Authorization token required'') 401), [])"
    using nb by (rule require_tenant_rejects)
  show "require_role roles f a req
        = (Returns (Response (error_body ''Authorization token required'') 401), [])"
    using nb by (rule require_role_rejects)
next
  fix rest
  assume h: "authorization req = Some (''Bearer '' @ rest)"
  have nb: "\<not> no_bearer (authorization req)"
    using h by (auto simp only: no_bearer_iff)
  have tok: "bearer_token (the (authorization req))
               = Returns (takeWhile (\<lambda>c. c \<noteq> CHR '' '') rest)"
    using bearer_token_takeWhile [of "''Bearer '' @ rest" rest] h by simp
  show "\<forall>g \<in> {require_auth f a req, require_tenant f a req, require_role roles f a req}.
           \<exists>tr. snd g = Call_verify_token (takeWhile (\<lambda>c. c \<noteq> CHR '' '') rest) # tr
              \<and> (\<forall>t. Call_verify_token t \<in> set tr \<longrightarrow>
                    (\<exists>kw. Call_verify_token t \<in> set (snd (f kw))))"
    using require_auth_trace [OF nb tok, of f a]
          require_tenant_trace [OF nb tok, of f a]
          require_role_trace [OF nb tok, of roles f a]
    by blast
qed

text \<open>A Basic header is refused without an event; \<^verbatim>\<open>Bearer abc def\<close> is verified as
  \<^verbatim>\<open>abc\<close>.\<close>

theorem bearer_header_gate_witness:
  "require_tenant ok_handler \<lparr>supabase_client = Some demo_supabase\<rparr>
       \<lparr>authorization = Some ''Basic abc'', get_json = Returns (JObj [])\<rparr>
     = (Returns (Response (error_body ''Authorization token required'') 401), [])
   \<and> hd (snd (require_tenant ok_handler \<lparr>supabase_client = Some demo_supabase\<rparr>
        \<lparr>authorization = Some ''Bearer abc def'', get_json = Returns (JObj [])\<rparr>))
     = Call_verify_token ''abc''"
proof -
  have "\<not> (\<exists>rest. ''Basic abc'' = ''Bearer '' @ rest)" by simp
  then have 1: "require_tenant ok_handler \<lparr>supabase_client = Some demo_supabase\<rparr>
       \<lparr>authorization = Some ''Basic abc'', get_json = Returns (JObj [])\<rparr>
     = (Returns (Response (error_body ''Authorization token required'') 401), [])"
    using bearer_header_gate [of "\<lparr>authorization = Some ''Basic abc'', get_json = Returns (JObj [])\<rparr>"
            ok_handler "\<lparr>supabase_client = Some demo_supabase\<rparr>" "[]"]
    by simp
  have "authorization \<lparr>authorization = Some ''Bearer abc def'', get_json = Returns (JObj [])\<rparr>
          = Some (''Bearer '' @ ''abc def'')" by simp
  then have 2: "hd (snd (require_tenant ok_handler \<lparr>supabase_client = Some demo_supabase\<rparr>
        \<lparr>authorization = Some ''Bearer abc def'', get_json = Returns (JObj [])\<rparr>))
     = Call_verify_token ''abc''"
    using bearer_header_gate [of "\<lparr>authorization = Some ''Bearer abc def'', get_json = Returns (JObj [])\<rparr>"
            ok_handler "\<lparr>supabase_client = Some demo_supabase\<rparr>" "[]"]
    by fastforce
  from 1 2 show ?thesis by simp
qed

text \<open>
  Claim C9 as stated says that \<^verbatim>\<open>verify_token\<close> only ever receives a non-empty token.
  The headers \<^verbatim>\<open>Bearer \<close> and \<^verbatim>\<open>Bearer  abc\<close> (two spaces) pass the guard's test,
  and \<^verbatim>\<open>split(' ')[1]\<close> is the empty string: the verifier is entered, and the provider
  is called, with the empty token.
\<close>

theorem empty_bearer_token_reaches_verifier:
  "snd (require_auth ok_handler \<lparr>supabase_client = Some demo_supabase\<rparr>
          \<lparr>authorization = Some ''Bearer '', get_json = Returns (JObj [])\<rparr>)
     = [Call_verify_token '''', Auth_get_user '''']
   \<and> snd (require_tenant ok_handler \<lparr>supabase_client = Some demo_supabase\<rparr>
          \<lparr>authorization = Some ''Bearer  abc'', get_json = Returns (JObj [])\<rparr>)
     = [Call_verify_token '''', Auth_get_user '''',
        Call_get_tenant_from_user (Some ''u-1''),
        Select ''tenant_users'' ''tenant_id, role'' ''user_id'' (Some ''u-1'')]"
  by (simp add: require_auth_def require_tenant_def no_bearer_def bearer_token_def
        verify_token_def get_tenant_from_user_def demo_supabase_def demo_user_def ok_handler_def)

subsection \<open>An exception with an empty message\<close>

text \<open>
  Claim C1, evaluated where the code departs from it. The guards test \<^verbatim>\<open>if error:\<close>, and
  \<^verbatim>\<open>verify_token\<close> and \<^verbatim>\<open>get_tenant_from_user\<close> return \<^verbatim>\<open>str(e)\<close> as the error. When
  the provider raises an exception whose message is empty, the verification has failed
  but the error is false: \<^verbatim>\<open>require_role\<close> goes on to resolve the membership of the user
  \<^verbatim>\<open>None\<close> and answers 404 instead of 401. In the same way a membership lookup that
  raises an empty message is not answered with 404: the role \<^verbatim>\<open>None\<close> is checked and the
  answer is 403.
\<close>

theorem require_role_empty_error_message:
  "auth_get_user silent_supabase ''abc'' = Raises ''''
   \<and> fst (verify_token \<lparr>supabase_client = Some silent_supabase\<rparr> ''abc'') = (None, Some '''')
   \<and> require_role [''owner'', ''admin''] ok_handler \<lparr>supabase_client = Some silent_supabase\<rparr>
        \<lparr>authorization = Some ''Bearer abc'', get_json = Returns (JObj [])\<rparr>
     = (Returns (Response (error_body ''User not associated with any tenant'') 404),
        [Call_verify_token ''abc'', Auth_get_user ''abc'',
         Call_get_tenant_from_user None,
         Select ''tenant_users'' ''tenant_id, role'' ''user_id'' None])
   \<and> fst (require_role [''owner'', ''admin''] ok_handler
        \<lparr>supabase_client = Some (demo_supabase\<lparr>select_tenant_users := (\<lambda>_. Raises '''')\<rparr>)\<rparr>
        \<lparr>authorization = Some ''Bearer abc'', get_json = Returns (JObj [])\<rparr>)
     = Returns (Response (error_body ''Insufficient permissions. Required: owner, admin'') 403)"
  by (simp add: require_role_def no_bearer_def bearer_token_def silent_supabase_def
        failing_supabase_def verify_token_def get_tenant_from_user_def demo_supabase_def
        demo_user_def)

subsection \<open>Token verification failures\<close>

text \<open>
  Claim C6, as amended. For each of the three guards and a header \<^verbatim>\<open>Bearer \<close> followed by
  \<open>rest\<close>: when \<^verbatim>\<open>verify_token\<close> fails with a non-empty message \<open>m\<close>, the response is
  HTTP 401 and its body is the object with the single field \<^verbatim>\<open>error\<close> holding \<open>m\<close>.
  The message \<open>m\<close> is \<^verbatim>\<open>Supabase not configured\<close> when there is no client,
  \<^verbatim>\<open>Invalid token\<close> when the provider reports no user, and otherwise the text of the
  provider's exception, word for word.
\<close>

theorem token_failure_response:
  assumes "authorization req = Some (''Bearer '' @ rest)"
      and "token = takeWhile (\<lambda>c. c \<noteq> CHR '' '') rest"
      and "snd (fst (verify_token a token)) = Some m"
      and "m \<noteq> []"
  shows "fst (require_auth f a req) = Returns (Response (JObj [(''error'', JStr m)]) 401)
       \<and> fst (require_tenant f a req) = Returns (Response (JObj [(''error'', JStr m)]) 401)
       \<and> fst (require_role roles f a req) = Returns (Response (JObj [(''error'', JStr m)]) 401)
       \<and> ((supabase_client a = None \<and> m = ''Supabase not configured'')
           \<or> (\<exists>sb. supabase_client a = Some sb
                 \<and> (auth_get_user sb token = Returns None \<and> m = ''Invalid token''
                     \<or> auth_get_user sb token = Raises m)))"
proof -
  have nb: "\<not> no_bearer (authorization req)"
    using assms(1) by (auto simp only: no_bearer_iff)
  have tok: "bearer_token (the (authorization req)) = Returns token"
    using bearer_token_takeWhile [of "''Bearer '' @ rest" rest] assms(1,2) by simp
  obtain uid tr where v: "verify_token a token = ((uid, Some m), tr)"
    using assms(3) by (cases "verify_token a token") auto
  have 1: "fst (require_auth f a req) = Returns (Response (JObj [(''error'', JStr m)]) 401)"
    using nb tok v assms(4) by (simp add: require_auth_def error_body_def)
  have 2: "fst (require_tenant f a req) = Returns (Response (JObj [(''error'', JStr m)]) 401)"
    using nb tok v assms(4) by (simp add: require_tenant_def error_body_def)
  have 3: "fst (require_role roles f a req) = Returns (Response (JObj [(''error'', JStr m)]) 401)"
    using nb tok v assms(4) by (simp add: require_role_def error_body_def)
  from 1 2 3 verify_token_error_cases [OF assms(3)] show ?thesis by blast
qed

text \<open>An expired token, as the provider words it.\<close>

theorem token_failure_response_witness:
  "fst (require_tenant ok_handler \<lparr>supabase_client = Some (failing_supabase ''JWT expired'')\<rparr>
          \<lparr>authorization = Some ''Bearer abc'', get_json = Returns (JObj [])\<rparr>)
     = Returns (Response (JObj [(''error'', JStr ''JWT expired'')]) 401)"
proof -
  have "snd (fst (verify_token \<lparr>supabase_client = Some (failing_supabase ''JWT expired'')\<rparr> ''abc''))
          = Some ''JWT expired''"
    by (simp add: verify_token_def failing_supabase_def)
  then show ?thesis
    using token_failure_response [of "\<lparr>authorization = Some ''Bearer abc'', get_json = Returns (JObj [])\<rparr>"
            "''abc''" "''abc''" "\<lparr>supabase_client = Some (failing_supabase ''JWT expired'')\<rparr>"
            "''JWT expired''" ok_handler "[]"]
    by simp
qed

text \<open>
  Claim C6 as stated says that the body never carries internal error detail beyond a
  classified message. The message of any exception of the provider call is returned
  unchanged: here the address of an unreachable backend, which is none of the fixed
  messages of the guards.
\<close>

theorem token_failure_echoes_provider_text:
  "auth_get_user (failing_supabase ''connect ECONNREFUSED 10.0.3.7:5432'') ''abc''
     = Raises ''connect ECONNREFUSED 10.0.3.7:5432''
   \<and> fst (require_tenant ok_handler
        \<lparr>supabase_client = Some (failing_supabase ''connect ECONNREFUSED 10.0.3.7:5432'')\<rparr>
        \<lparr>authorization = Some ''Bearer abc'', get_json = Returns (JObj [])\<rparr>)
     = Returns (Response (JObj [(''error'', JStr ''connect ECONNREFUSED 10.0.3.7:5432'')]) 401)
   \<and> ''connect ECONNREFUSED 10.0.3.7:5432'' \<noteq> ''Invalid token''
   \<and> ''connect ECONNREFUSED 10.0.3.7:5432'' \<noteq> ''Supabase not configured''
   \<and> ''connect ECONNREFUSED 10.0.3.7:5432'' \<noteq> ''Authorization token required''"
  by (simp add: require_tenant_def no_bearer_def bearer_token_def failing_supabase_def
        verify_token_def error_body_def)

section \<open>Signup and signin\<close>

subsection \<open>Matching on the provider's message\<close>

lemma str_in_iff: "str_in sub s \<longleftrightarrow> (\<exists>u w. s = u @ sub @ w)"
proof (induction s)
  case Nil
  then show ?case by auto
next
  case (Cons c cs)
  show ?case
  proof
    assume "str_in sub (c # cs)"
    then consider "startswith (c # cs) sub" | "str_in sub cs" by auto
    then show "\<exists>u w. c # cs = u @ sub @ w"
    proof cases
      case 1
      then obtain r where "c # cs = sub @ r" by (auto simp: startswith_iff)
      then have "c # cs = [] @ sub @ r" by simp
      then show ?thesis by blast
    next
      case 2
      then obtain u w where "cs = u @ sub @ w" using Cons.IH by blast
      then have "c # cs = (c # u) @ sub @ w" by simp
      then show ?thesis by blast
    qed
  next
    assume "\<exists>u w. c # cs = u @ sub @ w"
    then obtain u w where uw: "c # cs = u @ sub @ w" by blast
    show "str_in sub (c # cs)"
    proof (cases u)
      case Nil
      then have "startswith (c # cs) sub" using uw by (auto simp: startswith_iff)
      then show ?thesis by simp
    next
      case (Cons x xs)
      then have "cs = xs @ sub @ w" using uw by simp
      then have "str_in sub cs" using Cons.IH by blast
      then show ?thesis by simp
    qed
  qed
qed

lemma str_in_lower_iff:
  "str_in p (lower e) \<longleftrightarrow> (\<exists>u v w. e = u @ v @ w \<and> lower v = p)"
proof
  assume "str_in p (lower e)"
  then obtain u' w' where "map lower_char e = u' @ p @ w'"
    by (auto simp: str_in_iff lower_def)
  then have "\<exists>u vw. e = u @ vw \<and> u' = map lower_char u \<and> p @ w' = map lower_char vw"
    by (simp only: map_eq_append_conv)
  then obtain u vw where 1: "e = u @ vw" "p @ w' = map lower_char vw"
    by blast
  from 1(2) have "\<exists>v w. vw = v @ w \<and> p = map lower_char v \<and> w' = map lower_char w"
    by (simp only: append_eq_map_conv)
  then obtain v w where 2: "vw = v @ w" "map lower_char v = p"
    by auto
  from 1 2 show "\<exists>u v w. e = u @ v @ w \<and> lower v = p" by (auto simp: lower_def)
next
  assume "\<exists>u v w. e = u @ v @ w \<and> lower v = p"
  then obtain u v w where "e = u @ v @ w" "lower v = p" by blast
  then have "lower e = lower u @ p @ lower w" by (auto simp: lower_def)
  then show "str_in p (lower e)" unfolding str_in_iff by blast
qed

lemma str_in_longer: "str_in (x @ sub) s \<Longrightarrow> str_in sub s"
proof -
  assume "str_in (x @ sub) s"
  then obtain u w where "s = u @ (x @ sub) @ w" unfolding str_in_iff by blast
  then have "s = (u @ x) @ sub @ w" by simp
  then show ?thesis unfolding str_in_iff by blast
qed

lemma user_already_registered:
  "str_in ''user already registered'' s \<Longrightarrow> str_in ''already registered'' s"
  using str_in_longer [of "''user ''" "''already registered''" s] by simp

lemma signup_auth_error_class:
  "(status (signup_auth_error e), json_get (body (signup_auth_error e)) ''error'')
     = (if str_in ''already registered'' (lower e)
        then (400, JStr ''Email already registered'')
        else if str_in ''rate limit'' (lower e) \<or> str_in ''rate_limit'' (lower e)
        then (429, JStr ''Email rate limit exceeded'')
        else if str_in ''invalid'' (lower e) \<and> str_in ''email'' (lower e)
        then (400, JStr ''Invalid email address'')
        else if str_in ''password'' (lower e)
                \<and> (str_in ''weak'' (lower e) \<or> str_in ''short'' (lower e))
        then (400, JStr ''Password too weak'')
        else (400, JStr ''Authentication error''))"
  using user_already_registered [of "lower e"]
  by (auto simp: signup_auth_error_def Let_def json_get_def dict_get_def)

lemma lower_already_registered:
  "str_in ''already registered'' (lower ''User already registered'')"
  by code_simp

lemma lower_Invalid: "lower ''Invalid'' = ''invalid''"
  by code_simp

subsection \<open>Validation\<close>

text \<open>
  Claim C2, as amended. When the request body is a JSON object in which \<^verbatim>\<open>email\<close>,
  \<^verbatim>\<open>password\<close> or \<^verbatim>\<open>company_name\<close> is missing, or present with an empty value (any
  value that Python takes as false), \<^verbatim>\<open>signup\<close> answers HTTP 400 and its trace is empty.
  When the body is not a JSON object, the handler raises before it validates anything:
  \<^verbatim>\<open>get_json\<close> raises on a body that is not JSON, and \<^verbatim>\<open>data.get\<close> raises on
  \<^verbatim>\<open>null\<close>, a list or a scalar. \<^verbatim>\<open>handle_errors\<close> prints the exception and answers HTTP
  500 with its text. In every one of these cases no call of the Supabase client, for
  authentication or for any table, has been made.
\<close>

theorem signup_validation_fails_fast:
  "(\<forall>data k. get_json req = Returns (JObj data)
        \<and> k \<in> {''email'', ''password'', ''company_name''}
        \<and> (map_of data k = None \<or> (\<exists>v. map_of data k = Some v \<and> \<not> truthy v)) \<longrightarrow>
        signup a req
          = (Returns (Response (error_body ''Email and password are required'') 400), [])
      \<or> signup a req
          = (Returns (Response (error_body ''Company name is required'') 400), []))
   \<and> (\<forall>e. get_json req = Raises e \<longrightarrow>
        signup a req
          = (Returns (Response (error_body e) 500),
             [Print (''Error in signup: '' @ e), Print_exc]))
   \<and> (\<forall>v. get_json req = Returns v \<and> (\<forall>data. v \<noteq> JObj data) \<longrightarrow>
        signup a req
          = (Returns (Response (error_body (has_no_attribute v ''get'')) 500),
             [Print (''Error in signup: '' @ has_no_attribute v ''get''), Print_exc]))"
proof (intro conjI allI impI)
  fix data k
  assume h: "get_json req = Returns (JObj data)
        \<and> k \<in> {''email'', ''password'', ''company_name''}
        \<and> (map_of data k = None \<or> (\<exists>v. map_of data k = Some v \<and> \<not> truthy v))"
  then have "\<not> truthy (dict_get data k)"
    by (auto simp: dict_get_def)
  then show "signup a req
          = (Returns (Response (error_body ''Email and password are required'') 400), [])
      \<or> signup a req
          = (Returns (Response (error_body ''Company name is required'') 400), [])"
    using h by (auto simp: signup_def signup_dict_def handle_errors_def)
next
  fix e
  assume "get_json req = Raises e"
  then show "signup a req
          = (Returns (Response (error_body e) 500),
             [Print (''Error in signup: '' @ e), Print_exc])"
    by (simp add: signup_def handle_errors_def)
next
  fix v
  assume "get_json req = Returns v \<and> (\<forall>data. v \<noteq> JObj data)"
  then show "signup a req
          = (Returns (Response (error_body (has_no_attribute v ''get'')) 500),
             [Print (''Error in signup: '' @ has_no_attribute v ''get''), Print_exc])"
    by (cases v) (simp_all add: signup_def handle_errors_def)
qed

text \<open>A body without \<^verbatim>\<open>company_name\<close>, a body with an empty \<^verbatim>\<open>email\<close>, and a body that
  is a list.\<close>

theorem signup_validation_fails_fast_witness:
  "signup \<lparr>supabase_client = Some demo_supabase\<rparr>
     \<lparr>authorization = None,
      get_json = Returns (JObj [(''email'', JStr ''owner@acme.test''), (''password'', JStr ''pw'')])\<rparr>
     = (Returns (Response (error_body ''Company name is required'') 400), [])
   \<and> signup \<lparr>supabase_client = Some demo_supabase\<rparr>
     \<lparr>authorization = None,
      get_json = Returns (JObj [(''email'', JStr ''''), (''password'', JStr ''pw''),
                  (''company_name'', JStr ''Acme'')])\<rparr>
     = (Returns (Response (error_body ''Email and password are required'') 400), [])
   \<and> signup \<lparr>supabase_client = Some demo_supabase\<rparr>
     \<lparr>authorization = None, get_json = Returns (JList [])\<rparr>
     = (Returns (Response (error_body (has_no_attribute (JList []) ''get'')) 500),
        [Print (''Error in signup: '' @ has_no_attribute (JList []) ''get''), Print_exc])"
proof -
  let ?a = "\<lparr>supabase_client = Some demo_supabase\<rparr>"
  let ?d1 = "[(''email'', JStr ''owner@acme.test''), (''password'', JStr ''pw'')]"
  let ?d2 = "[(''email'', JStr ''''), (''password'', JStr ''pw''),
                  (''company_name'', JStr ''Acme'')]"
  let ?r1 = "\<lparr>authorization = None, get_json = Returns (JObj ?d1)\<rparr>"
  let ?r2 = "\<lparr>authorization = None, get_json = Returns (JObj ?d2)\<rparr>"
  let ?r3 = "\<lparr>authorization = None, get_json = Returns (JList [])\<rparr>"
  have h1: "get_json ?r1 = Returns (JObj ?d1)
        \<and> ''company_name'' \<in> {''email'', ''password'', ''company_name''}
        \<and> (map_of ?d1 ''company_name'' = None
             \<or> (\<exists>v. map_of ?d1 ''company_name'' = Some v \<and> \<not> truthy v))"
    by simp
  have h2: "get_json ?r2 = Returns (JObj ?d2)
        \<and> ''email'' \<in> {''email'', ''password'', ''company_name''}
        \<and> (map_of ?d2 ''email'' = None
             \<or> (\<exists>v. map_of ?d2 ''email'' = Some v \<and> \<not> truthy v))"
    by simp
  have h3: "get_json ?r3 = Returns (JList []) \<and> (\<forall>data. JList [] \<noteq> JObj data)"
    by simp
  have 1: "signup ?a ?r1
     = (Returns (Response (error_body ''Company name is required'') 400), [])"
    using signup_validation_fails_fast [of ?r1 ?a, THEN conjunct1, rule_format, OF h1]
    by (simp add: signup_def signup_dict_def handle_errors_def dict_get_def error_body_def)
  have 2: "signup ?a ?r2
     = (Returns (Response (error_body ''Email and password are required'') 400), [])"
    using signup_validation_fails_fast [of ?r2 ?a, THEN conjunct1, rule_format, OF h2]
    by (simp add: signup_def signup_dict_def handle_errors_def dict_get_def error_body_def)
  have 3: "signup ?a ?r3
     = (Returns (Response (error_body (has_no_attribute (JList []) ''get'')) 500),
        [Print (''Error in signup: '' @ has_no_attribute (JList []) ''get''), Print_exc])"
    by (rule signup_validation_fails_fast [of ?r3 ?a, THEN conjunct2, THEN conjunct2,
          rule_format, OF h3])
  show ?thesis by (intro conjI) (rule 1, rule 2, rule 3)
qed

text \<open>
  Claim C2 as stated says that every signup request in which the three fields are missing
  is answered with HTTP 400. A request whose body is the JSON value \<^verbatim>\<open>null\<close> has none of
  them: \<^verbatim>\<open>request.get_json()\<close> is \<^verbatim>\<open>None\<close>, \<^verbatim>\<open>data.get('email')\<close> raises
  \<^verbatim>\<open>AttributeError\<close>, and the answer is HTTP 500 with the text of the exception.
\<close>

theorem signup_null_body_is_500:
  "signup \<lparr>supabase_client = Some demo_supabase\<rparr>
     \<lparr>authorization = None, get_json = Returns JNull\<rparr>
     = (Returns (Response (JObj [(''error'', JStr (none_has_no_attribute ''get''))]) 500),
        [Print (''Error in signup: '' @ none_has_no_attribute ''get''), Print_exc])"
  by (simp add: signup_def handle_errors_def has_no_attribute_def none_has_no_attribute_def
        error_body_def)

subsection \<open>Step 1: the identity\<close>

text \<open>
  Claim C3. For a valid signup request whose \<^verbatim>\<open>sign_up\<close> call raises, the response is
  that of exactly one of five classes, chosen by the first match on the lowered message:
  already registered (400, \<^verbatim>\<open>Email already registered\<close>), rate limit (429), invalid
  email (400), weak password (400), and otherwise the generic authentication error (400).
  The trace is the \<^verbatim>\<open>sign_up\<close> call alone: no tenant and no membership is inserted.
  The same holds for the trace when the provider answers without a user, which is
  reported as 400 \<^verbatim>\<open>Failed to create user\<close>.
\<close>

theorem signup_identity_failure_aborts:
  assumes "supabase_client a = Some sb"
      and "truthy (dict_get (json_dict req) ''email'')"
      and "truthy (dict_get (json_dict req) ''password'')"
      and "truthy (dict_get (json_dict req) ''company_name'')"
  shows "(\<forall>e. auth_sign_up sb (dict_get (json_dict req) ''email'')
                (dict_get (json_dict req) ''password'') = Raises e \<longrightarrow>
            signup a req
              = (Returns (signup_auth_error e),
                 [Auth_sign_up (dict_get (json_dict req) ''email'')
                    (dict_get (json_dict req) ''password'')])
          \<and> (status (signup_auth_error e), json_get (body (signup_auth_error e)) ''error'')
              = (if str_in ''already registered'' (lower e)
                 then (400, JStr ''Email already registered'')
                 else if str_in ''rate limit'' (lower e) \<or> str_in ''rate_limit'' (lower e)
                 then (429, JStr ''Email rate limit exceeded'')
                 else if str_in ''invalid'' (lower e) \<and> str_in ''email'' (lower e)
                 then (400, JStr ''Invalid email address'')
                 else if str_in ''password'' (lower e)
                         \<and> (str_in ''weak'' (lower e) \<or> str_in ''short'' (lower e))
                 then (400, JStr ''Password too weak'')
                 else (400, JStr ''Authentication error'')))
       \<and> (\<forall>ar. auth_sign_up sb (dict_get (json_dict req) ''email'')
                (dict_get (json_dict req) ''password'') = Returns ar \<and> user ar = None \<longrightarrow>
            signup a req
              = (Returns (Response (error_body ''Failed to create user'') 400),
                 [Auth_sign_up (dict_get (json_dict req) ''email'')
                    (dict_get (json_dict req) ''password'')]))"
proof (intro conjI allI impI)
  fix e
  assume "auth_sign_up sb (dict_get (json_dict req) ''email'')
            (dict_get (json_dict req) ''password'') = Raises e"
  then show "signup a req
              = (Returns (signup_auth_error e),
                 [Auth_sign_up (dict_get (json_dict req) ''email'')
                    (dict_get (json_dict req) ''password'')])"
    using assms truthy_field_object [OF assms(2)]
    by (simp add: signup_object signup_dict_def handle_errors_def Let_def)
  show "(status (signup_auth_error e), json_get (body (signup_auth_error e)) ''error'')
              = (if str_in ''already registered'' (lower e)
                 then (400, JStr ''Email already registered'')
                 else if str_in ''rate limit'' (lower e) \<or> str_in ''rate_limit'' (lower e)
                 then (429, JStr ''Email rate limit exceeded'')
                 else if str_in ''invalid'' (lower e) \<and> str_in ''email'' (lower e)
                 then (400, JStr ''Invalid email address'')
                 else if str_in ''password'' (lower e)
                         \<and> (str_in ''weak'' (lower e) \<or> str_in ''short'' (lower e))
                 then (400, JStr ''Password too weak'')
                 else (400, JStr ''Authentication error''))"
    by (rule signup_auth_error_class)
next
  fix ar
  assume "auth_sign_up sb (dict_get (json_dict req) ''email'')
            (dict_get (json_dict req) ''password'') = Returns ar \<and> user ar = None"
  then show "signup a req
              = (Returns (Response (error_body ''Failed to create user'') 400),
                 [Auth_sign_up (dict_get (json_dict req) ''email'')
                    (dict_get (json_dict req) ''password'')])"
    using assms truthy_field_object [OF assms(2)]
    by (simp add: signup_object signup_dict_def handle_errors_def Let_def)
qed

text \<open>The provider's wording for an email that is in use.\<close>

theorem signup_identity_failure_aborts_witness:
  "signup \<lparr>supabase_client = Some (failing_supabase ''User already registered'')\<rparr>
     signup_request
     = (Returns (Response (JObj
          [(''error'', JStr ''Email already registered''),
           (''message'', JStr ''This email address is already in use. Please sign in instead.'')])
          400),
        [Auth_sign_up (JStr ''owner@acme.test'') (JStr ''pw'')])"
proof -
  have 1: "signup_auth_error ''User already registered''
             = Response (JObj
          [(''error'', JStr ''Email already registered''),
           (''message'', JStr ''This email address is already in use. Please sign in instead.'')])
          400"
    using lower_already_registered by (simp add: signup_auth_error_def Let_def)
  show ?thesis
    using signup_identity_failure_aborts [of
            "\<lparr>supabase_client = Some (failing_supabase ''User already registered'')\<rparr>"
            "failing_supabase ''User already registered''" signup_request] 1
    by (simp add: signup_request_def dict_get_def failing_supabase_def json_dict_def)
qed

subsection \<open>Signin: the provider's error\<close>

text \<open>
  Claim C8. For a signin request with email and password whose credential check raises
  with message \<open>e\<close>: when \<open>e\<close> has a part that reads \<^verbatim>\<open>invalid\<close> or \<^verbatim>\<open>credentials\<close>
  once lowered, the response is HTTP 401 \<^verbatim>\<open>Invalid email or password\<close>; for every other
  message it is HTTP 401 \<^verbatim>\<open>Authentication error: \<close> followed by \<open>e\<close>. No other call
  is made.
\<close>

theorem signin_provider_error:
  assumes "supabase_client a = Some sb"
      and "truthy (dict_get (json_dict req) ''email'')"
      and "truthy (dict_get (json_dict req) ''password'')"
      and "auth_sign_in_with_password sb (dict_get (json_dict req) ''email'')
             (dict_get (json_dict req) ''password'') = Raises e"
  shows "signin a req
           = (Returns (Response (error_body
                (if (\<exists>u v w. e = u @ v @ w \<and> (lower v = ''invalid'' \<or> lower v = ''credentials''))
                 then ''Invalid email or password''
                 else ''Authentication error: '' @ e)) 401),
              [Auth_sign_in_with_password (dict_get (json_dict req) ''email'')
                 (dict_get (json_dict req) ''password'')])"
proof -
  have "(str_in ''invalid'' (lower e) \<or> str_in ''credentials'' (lower e))
          \<longleftrightarrow> (\<exists>u v w. e = u @ v @ w \<and> (lower v = ''invalid'' \<or> lower v = ''credentials''))"
    unfolding str_in_lower_iff by blast
  then have "signin_auth_error e
          = Response (error_body
              (if (\<exists>u v w. e = u @ v @ w \<and> (lower v = ''invalid'' \<or> lower v = ''credentials''))
               then ''Invalid email or password''
               else ''Authentication error: '' @ e)) 401"
    by (simp only: signin_auth_error_def if_distrib [of error_body]
          if_distrib [of "\<lambda>b. Response b 401"])
  then show ?thesis
    using assms
    by (simp only: signin_object [OF truthy_field_object [OF assms(2)]] signin_dict_def
          handle_errors_def Let_def) simp
qed

text \<open>The provider's wording for a wrong password.\<close>

theorem signin_provider_error_witness:
  "signin \<lparr>supabase_client = Some (failing_supabase ''Invalid login credentials'')\<rparr>
     \<lparr>authorization = None,
      get_json = Returns (JObj [(''email'', JStr ''owner@acme.test''), (''password'', JStr ''pw'')])\<rparr>
     = (Returns (Response (error_body ''Invalid email or password'') 401),
        [Auth_sign_in_with_password (JStr ''owner@acme.test'') (JStr ''pw'')])"
proof -
  have "''Invalid login credentials'' = [] @ ''Invalid'' @ '' login credentials''
          \<and> (lower ''Invalid'' = ''invalid'' \<or> lower ''Invalid'' = ''credentials'')"
    using lower_Invalid by simp
  then have "\<exists>u v w. ''Invalid login credentials'' = u @ v @ w
               \<and> (lower v = ''invalid'' \<or> lower v = ''credentials'')"
    by blast
  then show ?thesis
    using signin_provider_error [of
            "\<lparr>supabase_client = Some (failing_supabase ''Invalid login credentials'')\<rparr>"
            "failing_supabase ''Invalid login credentials''"
            "\<lparr>authorization = None,
              get_json = Returns (JObj [(''email'', JStr ''owner@acme.test''), (''password'', JStr ''pw'')])\<rparr>"
            "''Invalid login credentials''"]
    by (simp add: dict_get_def failing_supabase_def json_dict_def)
qed

subsection \<open>The four steps of signup\<close>

lemma create_tenant_config_indep:
  "create_tenant (sb\<lparr>insert_tenant_agent_config := g\<rparr>) d = create_tenant sb d"
  by (simp add: create_tenant_def)

lemma create_tenant_user_config_indep:
  "create_tenant_user (sb\<lparr>insert_tenant_agent_config := g\<rparr>) t u = create_tenant_user sb t u"
  by (simp add: create_tenant_user_def)

lemma tenant_creation_error_status: "status (tenant_creation_error e) = 500"
  by (simp add: tenant_creation_error_def)

lemma signup_auth_error_status: "status (signup_auth_error e) \<noteq> 201"
  by (simp add: signup_auth_error_def Let_def)

lemma create_tenant_Inl:
  "create_tenant sb d = (Inl r, tr) \<Longrightarrow> status r = 500"
  by (auto simp: create_tenant_def Let_def tenant_creation_error_status
           split: outcome.splits list.splits option.splits if_splits)

lemma create_tenant_trace:
  "create_tenant sb d = (x, tr) \<Longrightarrow> Insert ''tenant_agent_config'' c \<notin> set tr"
  by (auto simp: create_tenant_def Let_def
           split: outcome.splits list.splits option.splits if_splits)

lemma create_tenant_user_Some:
  "create_tenant_user sb t u = (Some r, tr) \<Longrightarrow> status r = 500"
  by (auto simp: create_tenant_user_def Let_def split: outcome.splits list.splits)

lemma create_tenant_user_trace:
  "create_tenant_user sb t u = (x, tr) \<Longrightarrow> Insert ''tenant_agent_config'' c \<notin> set tr"
  by (auto simp: create_tenant_user_def Let_def split: outcome.splits list.splits)

lemma create_agent_config_cases:
  "create_agent_config sb t
     = (case insert_tenant_agent_config sb (agent_config_data t) of
          Raises e \<Rightarrow> [Insert ''tenant_agent_config'' (agent_config_data t),
                       Print (''Warning: Failed to create default agent config: '' @ e)]
        | Returns _ \<Rightarrow> [Insert ''tenant_agent_config'' (agent_config_data t)])"
  by (simp add: create_agent_config_def)

text \<open>Either a signup runs through all four steps, or it stops before step 4 with a status
  other than 201.\<close>

lemma signup_outcome:
  "(\<exists>sb ar u tid tr2 tr3.
      get_json req = Returns (JObj (json_dict req))
    \<and> supabase_client a = Some sb
    \<and> auth_sign_up sb (dict_get (json_dict req) ''email'') (dict_get (json_dict req) ''password'')
        = Returns ar
    \<and> user ar = Some u
    \<and> create_tenant sb (json_dict req) = (Inr tid, tr2)
    \<and> create_tenant_user sb tid (u_id u) = (None, tr3)
    \<and> signup a req
        = (Returns (signup_success (json_dict req) u (session ar) tid),
           Auth_sign_up (dict_get (json_dict req) ''email'') (dict_get (json_dict req) ''password'')
             # tr2 @ tr3 @ create_agent_config sb tid))
   \<or> (\<exists>r. fst (signup a req) = Returns r \<and> status r \<noteq> 201
         \<and> (\<forall>c. Insert ''tenant_agent_config'' c \<notin> set (snd (signup a req))))"
proof (cases "get_json req = Returns (JObj (json_dict req))")
  case False
  then have "\<forall>data. get_json req \<noteq> Returns (JObj data)"
    by (auto simp: json_dict_def)
  from signup_not_object [OF this, of a] show ?thesis by auto
next
  case obj: True
  have sd: "signup a req = handle_errors ''signup'' (signup_dict a (json_dict req))"
    using obj by (rule signup_object)
  show ?thesis
  proof (cases "\<not> truthy (dict_get (json_dict req) ''email'')
              \<or> \<not> truthy (dict_get (json_dict req) ''password'')
              \<or> \<not> truthy (dict_get (json_dict req) ''company_name'')")
  case True
  then show ?thesis by (auto simp: sd signup_dict_def handle_errors_def Let_def)
next
  case valid: False
  show ?thesis
  proof (cases "supabase_client a")
    case None
    then show ?thesis using valid by (simp add: sd signup_dict_def handle_errors_def Let_def)
  next
    case (Some sb)
    show ?thesis
    proof (cases "auth_sign_up sb (dict_get (json_dict req) ''email'')
                    (dict_get (json_dict req) ''password'')")
      case (Raises e)
      then show ?thesis
        using valid Some signup_auth_error_status [of e]
        by (simp add: sd signup_dict_def handle_errors_def Let_def)
    next
      case (Returns ar)
      show ?thesis
      proof (cases "user ar")
        case None
        then show ?thesis
          using valid Some Returns by (simp add: sd signup_dict_def handle_errors_def Let_def)
      next
        case u: (Some u)
        obtain x tr2 where ct: "create_tenant sb (json_dict req) = (x, tr2)"
          by (cases "create_tenant sb (json_dict req)")
        show ?thesis
        proof (cases x)
          case (Inl r)
          then show ?thesis
            using valid Some Returns u ct create_tenant_Inl [of sb "json_dict req" r tr2]
              create_tenant_trace [OF ct]
            by (simp add: sd signup_dict_def handle_errors_def Let_def)
        next
          case (Inr tid)
          obtain y tr3 where cu: "create_tenant_user sb tid (u_id u) = (y, tr3)"
            by (cases "create_tenant_user sb tid (u_id u)")
          show ?thesis
          proof (cases y)
            case None
            then show ?thesis
              using valid Some Returns u ct Inr cu obj
              by (simp add: sd signup_dict_def handle_errors_def Let_def)
          next
            case (Some r)
            then show ?thesis
              using valid \<open>supabase_client a = Some sb\<close> Returns u ct Inr cu
                create_tenant_user_Some [of sb tid "u_id u" r tr3]
                create_tenant_trace [OF ct] create_tenant_user_trace [OF cu]
              by (simp add: sd signup_dict_def handle_errors_def Let_def)
          qed
        qed
      qed
    qed
  qed
qed
qed

subsection \<open>Step 4: the default agent configuration\<close>

text \<open>
  Claim C4. When a signup reaches step 4 and the insert into \<^verbatim>\<open>tenant_agent_config\<close>
  raises, the response is still HTTP 201 \<^verbatim>\<open>Signup successful\<close> with no \<^verbatim>\<open>error\<close>
  field; the failure is printed as a warning, which is the last event of the trace; and
  the response is the same as the one given when the insert succeeds.
\<close>

theorem agent_config_failure_is_swallowed:
  assumes "supabase_client a = Some sb"
      and "Insert ''tenant_agent_config'' d \<in> set (snd (signup a req))"
      and "insert_tenant_agent_config sb d = Raises e"
  shows "(\<exists>r. fst (signup a req) = Returns r \<and> status r = 201
            \<and> json_get (body r) ''message'' = JStr ''Signup successful''
            \<and> json_get (body r) ''error'' = JNull)
       \<and> (\<exists>tr. snd (signup a req)
              = tr @ [Insert ''tenant_agent_config'' d,
                      Print (''Warning: Failed to create default agent config: '' @ e)])
       \<and> (\<forall>res. fst (signup
              (a\<lparr>supabase_client := Some (sb\<lparr>insert_tenant_agent_config := (\<lambda>_. Returns res)\<rparr>)\<rparr>)
              req) = fst (signup a req))"
proof -
  from signup_outcome [where a = a and req = req] assms(2)
  obtain sb' ar u tid tr2 tr3 where
        obj: "get_json req = Returns (JObj (json_dict req))"
    and c: "supabase_client a = Some sb'"
    and su: "auth_sign_up sb' (dict_get (json_dict req) ''email'')
               (dict_get (json_dict req) ''password'') = Returns ar"
    and u: "user ar = Some u"
    and ct: "create_tenant sb' (json_dict req) = (Inr tid, tr2)"
    and cu: "create_tenant_user sb' tid (u_id u) = (None, tr3)"
    and s: "signup a req
        = (Returns (signup_success (json_dict req) u (session ar) tid),
           Auth_sign_up (dict_get (json_dict req) ''email'') (dict_get (json_dict req) ''password'')
             # tr2 @ tr3 @ create_agent_config sb' tid)"
    by blast
  have sb: "sb' = sb" using c assms(1) by simp
  have "Insert ''tenant_agent_config'' d \<in> set (create_agent_config sb tid)"
    using assms(2) s sb create_tenant_trace [OF ct] create_tenant_user_trace [OF cu]
    by auto
  then have d: "d = agent_config_data tid"
    by (auto simp: create_agent_config_def split: outcome.splits)
  have cfg: "create_agent_config sb tid
               = [Insert ''tenant_agent_config'' d,
                  Print (''Warning: Failed to create default agent config: '' @ e)]"
    using assms(3) d by (simp add: create_agent_config_def)
  have 1: "\<exists>r. fst (signup a req) = Returns r \<and> status r = 201
            \<and> json_get (body r) ''message'' = JStr ''Signup successful''
            \<and> json_get (body r) ''error'' = JNull"
    using s by (simp add: signup_success_def json_get_def dict_get_def)
  have "snd (signup a req)
          = (Auth_sign_up (dict_get (json_dict req) ''email'') (dict_get (json_dict req) ''password'')
               # tr2 @ tr3)
            @ [Insert ''tenant_agent_config'' d,
               Print (''Warning: Failed to create default agent config: '' @ e)]"
    using s sb cfg by simp
  then have 2: "\<exists>tr. snd (signup a req)
              = tr @ [Insert ''tenant_agent_config'' d,
                      Print (''Warning: Failed to create default agent config: '' @ e)]"
    by blast
  have 3: "\<forall>res. fst (signup
              (a\<lparr>supabase_client := Some (sb\<lparr>insert_tenant_agent_config := (\<lambda>_. Returns res)\<rparr>)\<rparr>)
              req) = fst (signup a req)"
  proof
    fix res
    let ?sb = "sb\<lparr>insert_tenant_agent_config := (\<lambda>_. Returns res)\<rparr>"
    let ?a = "a\<lparr>supabase_client := Some ?sb\<rparr>"
    from signup_outcome [where a = "?a" and req = req]
    show "fst (signup ?a req) = fst (signup a req)"
    proof
      assume "\<exists>sb ar u tid tr2 tr3.
        get_json req = Returns (JObj (json_dict req))
        \<and> supabase_client ?a = Some sb
        \<and> auth_sign_up sb (dict_get (json_dict req) ''email'') (dict_get (json_dict req) ''password'')
            = Returns ar
        \<and> user ar = Some u
        \<and> create_tenant sb (json_dict req) = (Inr tid, tr2)
        \<and> create_tenant_user sb tid (u_id u) = (None, tr3)
        \<and> signup ?a req
            = (Returns (signup_success (json_dict req) u (session ar) tid),
               Auth_sign_up (dict_get (json_dict req) ''email'') (dict_get (json_dict req) ''password'')
                 # tr2 @ tr3 @ create_agent_config sb tid)"
      then show ?thesis
        using s su u ct cu sb
        by (auto simp: create_tenant_config_indep create_tenant_user_config_indep)
    next
      assume "\<exists>r. fst (signup ?a req) = Returns r \<and> status r \<noteq> 201
         \<and> (\<forall>c. Insert ''tenant_agent_config'' c \<notin> set (snd (signup ?a req)))"
      then obtain r where r: "fst (signup ?a req) = Returns r" "status r \<noteq> 201" by blast
      have "truthy (dict_get (json_dict req) ''email'')
            \<and> truthy (dict_get (json_dict req) ''password'')
            \<and> truthy (dict_get (json_dict req) ''company_name'')"
        using s
        by (auto simp: signup_object [OF obj] signup_dict_def handle_errors_def Let_def
                 split: if_splits)
      then have "fst (signup ?a req)
                   = Returns (signup_success (json_dict req) u (session ar) tid)"
        using su u ct cu sb
        by (simp add: signup_object [OF obj] signup_dict_def handle_errors_def Let_def
              create_tenant_config_indep create_tenant_user_config_indep)
      then show ?thesis using r by (simp add: signup_success_def)
    qed
  qed
  from 1 2 3 show ?thesis by blast
qed

text \<open>The demo client with a configuration insert that times out.\<close>

theorem agent_config_failure_is_swallowed_witness:
  "snd (signup \<lparr>supabase_client
            = Some (demo_supabase\<lparr>insert_tenant_agent_config := (\<lambda>_. Raises ''timeout'')\<rparr>)\<rparr>
          signup_request)
     = [Auth_sign_up (JStr ''owner@acme.test'') (JStr ''pw''),
        Rpc ''create_tenant''
          [(''p_name'', JStr ''Acme''), (''p_timezone'', JStr ''America/Toronto''),
           (''p_industry'', JNull),
           (''p_default_email_recipients'', JList [JStr ''owner@acme.test''])],
        Insert ''tenant_users''
          [(''tenant_id'', JStr ''t-1''), (''user_id'', JStr ''u-1''), (''role'', JStr ''owner'')],
        Insert ''tenant_agent_config'' (agent_config_data (JStr ''t-1'')),
        Print ''Warning: Failed to create default agent config: timeout'']
   \<and> fst (signup \<lparr>supabase_client
            = Some (demo_supabase\<lparr>insert_tenant_agent_config := (\<lambda>_. Raises ''timeout'')\<rparr>)\<rparr>
          signup_request)
     = fst (signup \<lparr>supabase_client = Some demo_supabase\<rparr> signup_request)"
proof -
  let ?sb = "demo_supabase\<lparr>insert_tenant_agent_config := (\<lambda>_. Raises ''timeout'')\<rparr>"
  let ?a = "\<lparr>supabase_client = Some ?sb\<rparr>"
  have tr: "snd (signup ?a signup_request)
     = [Auth_sign_up (JStr ''owner@acme.test'') (JStr ''pw''),
        Rpc ''create_tenant''
          [(''p_name'', JStr ''Acme''), (''p_timezone'', JStr ''America/Toronto''),
           (''p_industry'', JNull),
           (''p_default_email_recipients'', JList [JStr ''owner@acme.test''])],
        Insert ''tenant_users''
          [(''tenant_id'', JStr ''t-1''), (''user_id'', JStr ''u-1''), (''role'', JStr ''owner'')],
        Insert ''tenant_agent_config'' (agent_config_data (JStr ''t-1'')),
        Print ''Warning: Failed to create default agent config: timeout'']"
    by (simp add: signup_def signup_dict_def json_dict_def handle_errors_def signup_request_def dict_get_def
          dict_get_default_def demo_supabase_def demo_user_def create_tenant_def
          create_tenant_user_def create_agent_config_def Let_def)
  have h1: "supabase_client ?a = Some ?sb" by simp
  have h2: "Insert ''tenant_agent_config'' (agent_config_data (JStr ''t-1''))
              \<in> set (snd (signup ?a signup_request))"
    by (simp only: tr) simp
  have h3: "insert_tenant_agent_config ?sb (agent_config_data (JStr ''t-1'')) = Raises ''timeout''"
    by simp
  have "?a\<lparr>supabase_client := Some (?sb\<lparr>insert_tenant_agent_config := (\<lambda>_. Returns [])\<rparr>)\<rparr>
          = \<lparr>supabase_client = Some (demo_supabase\<lparr>insert_tenant_agent_config := (\<lambda>_. Returns [])\<rparr>)\<rparr>"
    by simp
  moreover have "fst (signup \<lparr>supabase_client
            = Some (demo_supabase\<lparr>insert_tenant_agent_config := (\<lambda>_. Returns [])\<rparr>)\<rparr>
          signup_request)
     = fst (signup \<lparr>supabase_client = Some demo_supabase\<rparr> signup_request)"
    by (simp add: signup_def signup_dict_def json_dict_def handle_errors_def signup_request_def dict_get_def
          dict_get_default_def demo_supabase_def demo_user_def create_tenant_def
          create_tenant_user_def Let_def)
  ultimately show ?thesis
    using agent_config_failure_is_swallowed [OF h1 h2 h3] tr by metis
qed

subsection \<open>The success response\<close>

text \<open>
  Claim C5. Every signup response with status 201 carries \<^verbatim>\<open>user.id\<close> (the identity the
  provider created), \<^verbatim>\<open>user.email\<close> (the request's email), \<^verbatim>\<open>tenant.id\<close> (the tenant
  created in step 2), \<^verbatim>\<open>tenant.name\<close> (the request's company name),
  \<^verbatim>\<open>tenant.role\<close> equal to \<^verbatim>\<open>owner\<close>, and the provider's access and refresh tokens,
  both null when the provider issued no session.
\<close>

theorem signup_success_response:
  assumes "fst (signup a req) = Returns r"
      and "status r = 201"
  shows "\<exists>sb ar u tid.
           supabase_client a = Some sb
         \<and> auth_sign_up sb (dict_get (json_dict req) ''email'')
             (dict_get (json_dict req) ''password'') = Returns ar
         \<and> user ar = Some u
         \<and> fst (create_tenant sb (json_dict req)) = Inr tid
         \<and> json_get (json_get (body r) ''user'') ''id'' = JStr (u_id u)
         \<and> json_get (json_get (body r) ''user'') ''email'' = dict_get (json_dict req) ''email''
         \<and> json_get (json_get (body r) ''tenant'') ''id'' = tid
         \<and> json_get (json_get (body r) ''tenant'') ''name''
             = dict_get (json_dict req) ''company_name''
         \<and> json_get (json_get (body r) ''tenant'') ''role'' = JStr ''owner''
         \<and> json_get (json_get (body r) ''session'') ''access_token''
             = (case session ar of None \<Rightarrow> JNull | Some s \<Rightarrow> JStr (access_token s))
         \<and> json_get (json_get (body r) ''session'') ''refresh_token''
             = (case session ar of None \<Rightarrow> JNull | Some s \<Rightarrow> JStr (refresh_token s))"
proof -
  from signup_outcome [where a = a and req = req] assms
  obtain sb ar u tid tr2 tr3 where
        c: "supabase_client a = Some sb"
    and su: "auth_sign_up sb (dict_get (json_dict req) ''email'')
               (dict_get (json_dict req) ''password'') = Returns ar"
    and u: "user ar = Some u"
    and ct: "create_tenant sb (json_dict req) = (Inr tid, tr2)"
    and s: "signup a req
        = (Returns (signup_success (json_dict req) u (session ar) tid),
           Auth_sign_up (dict_get (json_dict req) ''email'') (dict_get (json_dict req) ''password'')
             # tr2 @ tr3 @ create_agent_config sb tid)"
    by auto
  have r: "r = signup_success (json_dict req) u (session ar) tid"
    using s assms(1) by simp
  have "json_get (json_get (body r) ''user'') ''id'' = JStr (u_id u)"
       "json_get (json_get (body r) ''user'') ''email'' = dict_get (json_dict req) ''email''"
       "json_get (json_get (body r) ''tenant'') ''id'' = tid"
       "json_get (json_get (body r) ''tenant'') ''name''
             = dict_get (json_dict req) ''company_name''"
       "json_get (json_get (body r) ''tenant'') ''role'' = JStr ''owner''"
       "json_get (json_get (body r) ''session'') ''access_token''
             = (case session ar of None \<Rightarrow> JNull | Some s \<Rightarrow> JStr (access_token s))"
       "json_get (json_get (body r) ''session'') ''refresh_token''
             = (case session ar of None \<Rightarrow> JNull | Some s \<Rightarrow> JStr (refresh_token s))"
    unfolding r by (simp_all add: signup_success_def json_get_def dict_get_def)
  with c su u ct show ?thesis by auto
qed

text \<open>A provider that creates the user without a session: both tokens are null.\<close>

theorem signup_success_response_witness:
  "fst (signup \<lparr>supabase_client = Some (demo_supabase\<lparr>auth_sign_up :=
          (\<lambda>_ _. Returns \<lparr>user = Some demo_user, session = None\<rparr>)\<rparr>)\<rparr> signup_request)
     = Returns (signup_success (json_dict signup_request) demo_user None (JStr ''t-1''))
   \<and> status (signup_success (json_dict signup_request) demo_user None (JStr ''t-1'')) = 201
   \<and> json_get (json_get (body (signup_success (json_dict signup_request) demo_user None (JStr ''t-1'')))
      ''session'') ''access_token'' = JNull
   \<and> json_get (json_get (body (signup_success (json_dict signup_request) demo_user None (JStr ''t-1'')))
      ''tenant'') ''role'' = JStr ''owner''
   \<and> json_get (json_get (body (signup_success (json_dict signup_request) demo_user None (JStr ''t-1'')))
      ''user'') ''id'' = JStr ''u-1''"
proof -
  let ?sb = "demo_supabase\<lparr>auth_sign_up := (\<lambda>_ _. Returns \<lparr>user = Some demo_user, session = None\<rparr>)\<rparr>"
  let ?a = "\<lparr>supabase_client = Some ?sb\<rparr>"
  let ?r = "signup_success (json_dict signup_request) demo_user None (JStr ''t-1'')"
  have s: "fst (signup ?a signup_request) = Returns ?r"
    by (simp add: signup_def signup_dict_def json_dict_def handle_errors_def signup_request_def dict_get_def
          dict_get_default_def demo_supabase_def create_tenant_def
          create_tenant_user_def Let_def)
  have st: "status ?r = 201" by (simp add: signup_success_def)
  from signup_success_response [OF s st]
  obtain sb ar u tid where
        "supabase_client ?a = Some sb"
    and "auth_sign_up sb (dict_get (json_dict signup_request) ''email'')
             (dict_get (json_dict signup_request) ''password'') = Returns ar"
    and "user ar = Some u"
    and "json_get (json_get (body ?r) ''user'') ''id'' = JStr (u_id u)"
    and "json_get (json_get (body ?r) ''tenant'') ''role'' = JStr ''owner''"
    and "json_get (json_get (body ?r) ''session'') ''access_token''
             = (case session ar of None \<Rightarrow> JNull | Some s \<Rightarrow> JStr (access_token s))"
    by blast
  then have "json_get (json_get (body ?r) ''session'') ''access_token'' = JNull
      \<and> json_get (json_get (body ?r) ''tenant'') ''role'' = JStr ''owner''
      \<and> json_get (json_get (body ?r) ''user'') ''id'' = JStr ''u-1''"
    by (auto simp: demo_user_def)
  with s st show ?thesis by blast
qed

section \<open>Tenant updates\<close>










end
